theory Spec2Isabelle
  imports Complex_Main "HOL-Library.Multiset"
begin

section \<open>Python strings\<close>

text \<open>
  A Python \<open>str\<close> is modelled as a \<open>string\<close>; each \<open>char\<close> stands for one code
  point below 256. \<open>py_whitespace\<close> lists the code points of that range for which
  \<open>str.isspace\<close> holds; they are the ones \<open>str.strip()\<close> removes.
\<close>

definition py_whitespace :: "char list" where
  "py_whitespace =
     [CHR 0x09, CHR 0x0A, CHR 0x0B, CHR 0x0C, CHR 0x0D,
      CHR 0x1C, CHR 0x1D, CHR 0x1E, CHR 0x1F, CHR '' '', CHR 0x85, CHR 0xA0]"

definition py_isspace :: "char \<Rightarrow> bool" where
  "py_isspace c = (c \<in> set py_whitespace)"

definition lstrip :: "string \<Rightarrow> string" where
  "lstrip s = dropWhile py_isspace s"

definition rstrip :: "string \<Rightarrow> string" where
  "rstrip s = rev (dropWhile py_isspace (rev s))"

definition strip :: "string \<Rightarrow> string" where
  "strip s = lstrip (rstrip s)"

text \<open>\<open>str.lower()\<close> on code points below 256: the table of the cased letters.\<close>

definition upper_letters :: "char list" where
  "upper_letters = ''ABCDEFGHIJKLMNOPQRSTUVWXYZ'' @
     [CHR 0xC0, CHR 0xC1, CHR 0xC2, CHR 0xC3, CHR 0xC4, CHR 0xC5, CHR 0xC6, CHR 0xC7,
      CHR 0xC8, CHR 0xC9, CHR 0xCA, CHR 0xCB, CHR 0xCC, CHR 0xCD, CHR 0xCE, CHR 0xCF,
      CHR 0xD0, CHR 0xD1, CHR 0xD2, CHR 0xD3, CHR 0xD4, CHR 0xD5, CHR 0xD6,
      CHR 0xD8, CHR 0xD9, CHR 0xDA, CHR 0xDB, CHR 0xDC, CHR 0xDD, CHR 0xDE]"

definition lower_letters :: "char list" where
  "lower_letters = ''abcdefghijklmnopqrstuvwxyz'' @
     [CHR 0xE0, CHR 0xE1, CHR 0xE2, CHR 0xE3, CHR 0xE4, CHR 0xE5, CHR 0xE6, CHR 0xE7,
      CHR 0xE8, CHR 0xE9, CHR 0xEA, CHR 0xEB, CHR 0xEC, CHR 0xED, CHR 0xEE, CHR 0xEF,
      CHR 0xF0, CHR 0xF1, CHR 0xF2, CHR 0xF3, CHR 0xF4, CHR 0xF5, CHR 0xF6,
      CHR 0xF8, CHR 0xF9, CHR 0xFA, CHR 0xFB, CHR 0xFC, CHR 0xFD, CHR 0xFE]"

definition lower_char :: "char \<Rightarrow> char" where
  "lower_char c =
     (case map_of (zip upper_letters lower_letters) c of Some d \<Rightarrow> d | None \<Rightarrow> c)"

definition lower :: "string \<Rightarrow> string" where
  "lower s = map lower_char s"

text \<open>
  \<open>s.partition(sep)\<close> for a one-character separator: the text before the first
  occurrence, the separator, the text after it; \<open>(s, "", "")\<close> when there is none.
\<close>

fun str_partition :: "char \<Rightarrow> string \<Rightarrow> string \<times> string \<times> string" where
  "str_partition sep [] = ([], [], [])"
| "str_partition sep (c # cs) =
     (if c = sep then ([], [sep], cs)
      else (case str_partition sep cs of (a, m, b) \<Rightarrow> (c # a, m, b)))"

text \<open>\<open>x or None\<close> for a string \<open>x\<close>: the empty string is falsy.\<close>

definition or_none :: "string \<Rightarrow> string option" where
  "or_none s = (if s = [] then None else Some s)"

section \<open>ingest/parse.py\<close>

definition parse_discovery_seed :: "string option \<Rightarrow> string option \<times> string option" where
  "parse_discovery_seed discovery_seed =
     (case discovery_seed of
        None \<Rightarrow> (None, None)
      | Some d \<Rightarrow>
          if d = [] \<or> strip d = [] then (None, None)
          else
            let s = strip d in
            if CHR '':'' \<in> set s then
              (case str_partition (CHR '':'') s of
                 (name, _, rest) \<Rightarrow> (or_none (strip name), or_none (strip rest)))
            else (Some s, None))"

section \<open>ingest/csv_ingest.py: the discovery method\<close>

definition normalize_discovery_method :: "string option \<Rightarrow> string" where
  "normalize_discovery_method method =
     (case method of
        None \<Rightarrow> ''substructure''
      | Some x \<Rightarrow>
          if x = [] \<or> strip x = [] then ''substructure''
          else
            let m = lower (strip x) in
            if m \<in> set [''substructure'', ''sim2d'', ''sim3d''] then m
            else if m = ''similarity'' then ''sim2d''
            else m)"

section \<open>Python numbers\<close>

text \<open>\<open>int\<close> of a float drops the fraction, towards zero.\<close>

definition int_of_float :: "real \<Rightarrow> int" where
  "int_of_float x = (if x \<ge> 0 then \<lfloor>x\<rfloor> else \<lceil>x\<rceil>)"

section \<open>The tables\<close>

text \<open>
  One row of \<open>discovered_molecule\<close> (alias \<open>m\<close> in the queries) with the columns of the
  insert statement of \<open>upsert_molecules\<close>, and one row of \<open>molecule_geometry\<close> (alias
  \<open>g\<close>) and of \<open>molecule_geometry_cold\<close> with the columns of \<open>upsert_geometry\<close>. A
  nullable column is an \<open>option\<close>; floating-point columns are read as real numbers. The
  geometry tables have the primary key \<open>(dataset_id, cid)\<close>, the conflict target of their
  upserts, so each is a map from that key to the rest of the row.
\<close>

record mol_row =
  m_dataset_id :: string
  m_cid :: int
  m_smiles :: "string option"
  m_inchi_key :: "string option"
  m_molecular_formula :: "string option"
  m_molecular_weight :: "real option"
  m_exact_mass :: "real option"
  m_xlogp3 :: "real option"
  m_tpsa :: "real option"
  m_hba :: "int option"
  m_hbd :: "int option"
  m_rotatable_bonds :: "int option"
  m_discovery_method :: "string option"
  m_discovery_seed :: "string option"
  m_seed_name :: "string option"
  m_seed_smiles :: "string option"
  m_name :: "string option"
  m_ingest_run_id :: "string option"

record geom_row =
  g_conformer_id :: "string option"
  g_mmff94_energy :: "real option"
  g_conformer_rmsd :: "real option"
  g_effective_rotor_count :: "int option"
  g_shape_volume :: "real option"
  g_shape_selfoverlap :: "real option"
  g_heavy_atom_count :: "int option"
  g_component_count :: "int option"
  g_ingest_run_id :: string

record cold_row =
  c_molblock :: string
  c_shape_fingerprint :: "string option"
  c_pharmacophore_features :: "string option"
  c_mmff94_partial_charges :: "string option"
  c_coordinate_type :: "string option"

type_synonym geom_key = "string \<times> int"

record database =
  discovered_molecule :: "mol_row list"
  molecule_geometry :: "geom_key \<rightharpoonup> geom_row"
  molecule_geometry_cold :: "geom_key \<rightharpoonup> cold_row"

section \<open>app/main.py: the request models\<close>

record Page =
  page_limit :: int
  page_offset :: int

definition default_Page :: Page where
  "default_Page = \<lparr>page_limit = 100, page_offset = 0\<rparr>"

record SortItem =
  sort_field :: string
  sort_dir :: string

record MoleculesQueryBody =
  body_seed_name :: "string option"
  body_methods :: "string list option"
  body_ranges :: "(string \<times> real list) list option"
  body_sort :: "SortItem list option"
  body_page :: "Page option"

section \<open>The statements sent to the database\<close>

text \<open>
  A query argument, as asyncpg receives it, and one conjunct of the \<open>WHERE\<close> clause.
  Each constructor of \<open>cond\<close> is one of the five f-strings of \<open>_build_where\<close>, with the
  index of its first placeholder; \<open>render_cond\<close> gives the text the source emits.
\<close>

datatype sql_arg = ArgText string | ArgTextArray "string list" | ArgFloat real | ArgInt int

datatype cond =
    DatasetEq
  | SeedNameEq nat
  | MethodAny nat
  | GeomRange string nat
  | MolRange string nat

definition digit_char :: "nat \<Rightarrow> char" where
  "digit_char d = ''0123456789'' ! d"

fun str_nat :: "nat \<Rightarrow> string" where
  "str_nat n = (if n < 10 then [digit_char n] else str_nat (n div 10) @ [digit_char (n mod 10)])"

declare str_nat.simps [simp del]

fun join_str :: "string \<Rightarrow> string list \<Rightarrow> string" where
  "join_str sep [] = []"
| "join_str sep [x] = x"
| "join_str sep (x # y # ys) = x @ sep @ join_str sep (y # ys)"

definition render_cond :: "cond \<Rightarrow> string" where
  "render_cond c =
     (case c of
        DatasetEq \<Rightarrow> ''m.dataset_id = $1''
      | SeedNameEq idx \<Rightarrow> ''m.seed_name = $'' @ str_nat idx
      | MethodAny idx \<Rightarrow> ''m.discovery_method = ANY($'' @ str_nat idx @ ''::text[])''
      | GeomRange f idx \<Rightarrow>
          ''g.cid = m.cid AND g.'' @ f @ '' IS NOT NULL AND g.'' @ f @ '' >= $'' @ str_nat idx
            @ '' AND g.'' @ f @ '' <= $'' @ str_nat (idx + 1)
      | MolRange f idx \<Rightarrow>
          ''m.'' @ f @ '' IS NOT NULL AND m.'' @ f @ '' >= $'' @ str_nat idx
            @ '' AND m.'' @ f @ '' <= $'' @ str_nat (idx + 1))"

section \<open>app/main.py: the predicate builder\<close>

definition manifest_fields :: "string list" where
  "manifest_fields = [''molecular_weight'', ''TPSA'', ''XLogP3'', ''HBA'', ''HBD'', ''rotatable_bonds'']"

definition geometry_fields :: "string list" where
  "geometry_fields = [''mmff94_energy'', ''shape_volume'']"

text \<open>
  The loop over \<open>body.ranges.items()\<close>, on the state \<open>(conditions, args, idx)\<close> that its
  body updates.
\<close>

fun range_loop ::
  "(string \<times> real list) list \<Rightarrow> cond list \<times> sql_arg list \<times> nat \<Rightarrow> cond list \<times> sql_arg list \<times> nat"
where
  "range_loop [] st = st"
| "range_loop ((f, pair) # rest) (conditions, args, idx) =
     (if length pair \<ge> 2 \<and> f \<in> set (manifest_fields @ geometry_fields) then
        range_loop rest
          (conditions @ [if f \<in> set geometry_fields then GeomRange f idx else MolRange f idx],
           args @ [ArgFloat (pair ! 0), ArgFloat (pair ! 1)],
           idx + 2)
      else range_loop rest (conditions, args, idx))"

text \<open>
  \<open>_build_where\<close> up to the loop: the state \<open>(conditions, args, idx)\<close> after the
  \<open>seed_name\<close> and \<open>methods\<close> steps. An empty string and an empty list are falsy.
\<close>

definition where_head :: "string \<Rightarrow> MoleculesQueryBody \<Rightarrow> cond list \<times> sql_arg list \<times> nat" where
  "where_head dataset_id body =
     (let st0 = ([DatasetEq], [ArgText dataset_id], 2 :: nat);
          st1 = (case st0 of (conditions, args, idx) \<Rightarrow>
                   (case body_seed_name body of
                      Some s \<Rightarrow>
                        if s \<noteq> [] then (conditions @ [SeedNameEq idx], args @ [ArgText s], idx + 1)
                        else st0
                    | None \<Rightarrow> st0))
      in case st1 of (conditions, args, idx) \<Rightarrow>
           (case body_methods body of
              Some ms \<Rightarrow>
                if ms \<noteq> [] then (conditions @ [MethodAny idx], args @ [ArgTextArray ms], idx + 1)
                else st1
            | None \<Rightarrow> st1))"

definition build_where :: "string \<Rightarrow> MoleculesQueryBody \<Rightarrow> cond list \<times> sql_arg list" where
  "build_where dataset_id body =
     (let st2 = where_head dataset_id body;
          st3 = (case body_ranges body of
                   Some rs \<Rightarrow> if rs \<noteq> [] then range_loop rs st2 else st2
                 | None \<Rightarrow> st2)
      in case st3 of (conditions, args, idx) \<Rightarrow> (conditions, args))"


section \<open>app/main.py: join flag and sort order of query_molecules\<close>

definition use_geom :: "MoleculesQueryBody \<Rightarrow> bool" where
  "use_geom body =
     ((case body_ranges body of
         None \<Rightarrow> False
       | Some rs \<Rightarrow> rs \<noteq> [] \<and> list_ex (\<lambda>k. k \<in> set geometry_fields) (map fst rs))
      \<or>
      (case body_sort body of
         None \<Rightarrow> False
       | Some ss \<Rightarrow> ss \<noteq> [] \<and> list_ex (\<lambda>s. sort_field s \<in> set geometry_fields) ss))"

definition from_clause :: "bool \<Rightarrow> string" where
  "from_clause joined =
     ''FROM discovered_molecule m''
       @ (if joined
          then '' LEFT JOIN molecule_geometry g ON g.dataset_id = m.dataset_id AND g.cid = m.cid''
          else [])"

definition order_clause :: "MoleculesQueryBody \<Rightarrow> string" where
  "order_clause body =
     (case body_sort body of
        None \<Rightarrow> ''m.cid ASC''
      | Some ss \<Rightarrow>
          if ss \<noteq> [] then
            join_str '', ''
              (map (\<lambda>s. (if sort_field s \<in> set geometry_fields then ''g.'' else ''m.'')
                          @ sort_field s @ '' ''
                          @ (if sort_dir s = ''asc'' then ''ASC'' else ''DESC'')) ss)
          else ''m.cid ASC'')"

section \<open>The database's reading of the statements\<close>

text \<open>
  The relational engine is outside the repository; this section fixes the reading of the
  statements that the theorems use. A statement that the server or the driver rejects is
  \<open>SqlError\<close>, raised by \<open>fetch\<close>, \<open>fetchval\<close>, \<open>fetchrow\<close> or \<open>execute\<close>. A truth value
  of SQL is a \<open>bool option\<close> with \<open>None\<close> for unknown, and \<open>WHERE\<close> keeps the rows on
  which its condition is true.
\<close>

datatype sql_error = SqlError

type_synonym jrow = "mol_row \<times> geom_row option"

text \<open>
  \<open>FROM discovered_molecule m\<close>, with \<open>LEFT JOIN molecule_geometry g ON g.dataset_id =
  m.dataset_id AND g.cid = m.cid\<close> when \<open>joined\<close>: every molecule once, beside its geometry
  row when there is one.
\<close>

definition from_rows :: "database \<Rightarrow> bool \<Rightarrow> jrow list" where
  "from_rows db joined =
     map (\<lambda>m. (m, if joined then molecule_geometry db (m_dataset_id m, m_cid m) else None))
       (discovered_molecule db)"

text \<open>The placeholder \<open>$i\<close>, counted from 1.\<close>

definition param :: "sql_arg list \<Rightarrow> nat \<Rightarrow> sql_arg option" where
  "param args i = (if 1 \<le> i \<and> i \<le> length args then Some (args ! (i - 1)) else None)"

text \<open>
  The numeric columns by name. An unquoted identifier is folded to lower case, so
  \<open>m.TPSA\<close> is the column \<open>tpsa\<close>.
\<close>

datatype column = MCol string | GCol string

definition float_param :: "sql_arg list \<Rightarrow> nat \<Rightarrow> real option" where
  "float_param args i = (case param args i of Some (ArgFloat x) \<Rightarrow> Some x | _ \<Rightarrow> None)"

text \<open>
  Modelled from the spec: the migration that declares the tables is not in the repository.
  The columns of the counts (hydrogen-bond acceptors and donors, rotatable bonds, and the
  three counts of a geometry row) are \<open>integer\<close>, four bytes; the identifier is
  \<open>bigint\<close>; the other numeric columns are \<open>double precision\<close>.
\<close>

datatype sql_type = Float8 | Int4 | Int8

definition int4_range :: "int \<Rightarrow> bool" where
  "int4_range i = (- 2147483648 \<le> i \<and> i \<le> 2147483647)"

definition int8_range :: "int \<Rightarrow> bool" where
  "int8_range i = (- 9223372036854775808 \<le> i \<and> i \<le> 9223372036854775807)"

definition m_col_type :: "string \<Rightarrow> sql_type" where
  "m_col_type n =
     (if n = ''cid'' then Int8
      else if n = ''hba'' \<or> n = ''hbd'' \<or> n = ''rotatable_bonds'' then Int4
      else Float8)"

definition g_col_type :: "string \<Rightarrow> sql_type" where
  "g_col_type n =
     (if n = ''effective_rotor_count'' \<or> n = ''heavy_atom_count'' \<or> n = ''component_count''
      then Int4 else Float8)"

definition m_num_col :: "string \<Rightarrow> (mol_row \<Rightarrow> real option) option" where
  "m_num_col n =
     (if n = ''cid'' then Some (\<lambda>m. Some (real_of_int (m_cid m)))
      else if n = ''molecular_weight'' then Some m_molecular_weight
      else if n = ''exact_mass'' then Some m_exact_mass
      else if n = ''xlogp3'' then Some m_xlogp3
      else if n = ''tpsa'' then Some m_tpsa
      else if n = ''hba'' then Some (\<lambda>m. map_option real_of_int (m_hba m))
      else if n = ''hbd'' then Some (\<lambda>m. map_option real_of_int (m_hbd m))
      else if n = ''rotatable_bonds'' then Some (\<lambda>m. map_option real_of_int (m_rotatable_bonds m))
      else None)"

definition g_num_col :: "string \<Rightarrow> (geom_row \<Rightarrow> real option) option" where
  "g_num_col n =
     (if n = ''mmff94_energy'' then Some g_mmff94_energy
      else if n = ''conformer_rmsd'' then Some g_conformer_rmsd
      else if n = ''effective_rotor_count'' then Some (\<lambda>g. map_option real_of_int (g_effective_rotor_count g))
      else if n = ''shape_volume'' then Some g_shape_volume
      else if n = ''shape_selfoverlap'' then Some g_shape_selfoverlap
      else if n = ''heavy_atom_count'' then Some (\<lambda>g. map_option real_of_int (g_heavy_atom_count g))
      else if n = ''component_count'' then Some (\<lambda>g. map_option real_of_int (g_component_count g))
      else None)"

definition num_col :: "column \<Rightarrow> (jrow \<Rightarrow> real option) option" where
  "num_col c =
     (case c of
        MCol n \<Rightarrow> map_option (\<lambda>f r. f (fst r)) (m_num_col (lower n))
      | GCol n \<Rightarrow>
          map_option (\<lambda>f r. case snd r of None \<Rightarrow> None | Some g \<Rightarrow> f g) (g_num_col (lower n)))"

definition render_column :: "column \<Rightarrow> string" where
  "render_column c = (case c of MCol n \<Rightarrow> ''m.'' @ n | GCol n \<Rightarrow> ''g.'' @ n)"

definition col_type :: "column \<Rightarrow> sql_type" where
  "col_type c = (case c of MCol n \<Rightarrow> m_col_type (lower n) | GCol n \<Rightarrow> g_col_type (lower n))"

text \<open>
  A placeholder that is compared with a column has the type of the column, and the driver
  encodes the argument for that type. A Python float goes unchanged to a
  \<open>double precision\<close> placeholder. For an integer placeholder the driver takes \<open>int\<close>
  of the float, which drops the fraction, and raises when the integer does not fit the
  type. \<open>bound_param c args i\<close> is the number that the server compares the column \<open>c\<close>
  with when the placeholder \<open>$i\<close> holds a float, and \<open>None\<close> when the driver raises.
\<close>

definition bind_float :: "sql_type \<Rightarrow> real \<Rightarrow> real option" where
  "bind_float T x =
     (case T of
        Float8 \<Rightarrow> Some x
      | Int4 \<Rightarrow> if int4_range (int_of_float x) then Some (real_of_int (int_of_float x)) else None
      | Int8 \<Rightarrow> if int8_range (int_of_float x) then Some (real_of_int (int_of_float x)) else None)"

definition bound_param :: "column \<Rightarrow> sql_arg list \<Rightarrow> nat \<Rightarrow> real option" where
  "bound_param c args i =
     (case float_param args i of None \<Rightarrow> None | Some x \<Rightarrow> bind_float (col_type c) x)"

definition sql_and :: "bool option \<Rightarrow> bool option \<Rightarrow> bool option" where
  "sql_and a b =
     (if a = Some False \<or> b = Some False then Some False
      else if a = Some True \<and> b = Some True then Some True
      else None)"

definition sql_cmp :: "('a \<Rightarrow> 'a \<Rightarrow> bool) \<Rightarrow> 'a option \<Rightarrow> 'a option \<Rightarrow> bool option" where
  "sql_cmp rel a b =
     (case a of None \<Rightarrow> None | Some x \<Rightarrow> (case b of None \<Rightarrow> None | Some y \<Rightarrow> Some (rel x y)))"

definition sql_is_not_null :: "'a option \<Rightarrow> bool option" where
  "sql_is_not_null a = Some (a \<noteq> None)"

text \<open>\<open>col IS NOT NULL AND col >= lo AND col <= hi\<close>\<close>

definition range_test :: "real option \<Rightarrow> real \<Rightarrow> real \<Rightarrow> bool option" where
  "range_test v lo hi =
     sql_and (sql_and (sql_is_not_null v) (sql_cmp (\<lambda>x y. x \<ge> y) v (Some lo)))
       (sql_cmp (\<lambda>x y. x \<le> y) v (Some hi))"

text \<open>
  The value of one conjunct on one row of the \<open>FROM\<close> clause. In a row of the left join,
  \<open>g.cid\<close> is \<open>m.cid\<close> where the molecule has a geometry row and null where it has none.
\<close>

definition eval_cond :: "sql_arg list \<Rightarrow> cond \<Rightarrow> jrow \<Rightarrow> bool option" where
  "eval_cond args c r =
     (case c of
        DatasetEq \<Rightarrow>
          (case param args 1 of
             Some (ArgText d) \<Rightarrow> Some (m_dataset_id (fst r) = d)
           | _ \<Rightarrow> None)
      | SeedNameEq idx \<Rightarrow>
          (case param args idx of
             Some (ArgText s) \<Rightarrow> sql_cmp (\<lambda>x y. x = y) (m_seed_name (fst r)) (Some s)
           | _ \<Rightarrow> None)
      | MethodAny idx \<Rightarrow>
          (case param args idx of
             Some (ArgTextArray ms) \<Rightarrow> map_option (\<lambda>x. x \<in> set ms) (m_discovery_method (fst r))
           | _ \<Rightarrow> None)
      | GeomRange f idx \<Rightarrow>
          (case (num_col (GCol f), bound_param (GCol f) args idx, bound_param (GCol f) args (idx + 1)) of
             (Some col, Some lo, Some hi) \<Rightarrow>
               sql_and
                 (sql_cmp (\<lambda>x y. x = y) (map_option (\<lambda>g. m_cid (fst r)) (snd r)) (Some (m_cid (fst r))))
                 (range_test (col r) lo hi)
           | _ \<Rightarrow> None)
      | MolRange f idx \<Rightarrow>
          (case (num_col (MCol f), bound_param (MCol f) args idx, bound_param (MCol f) args (idx + 1)) of
             (Some col, Some lo, Some hi) \<Rightarrow> range_test (col r) lo hi
           | _ \<Rightarrow> None))"

definition eval_where :: "sql_arg list \<Rightarrow> cond list \<Rightarrow> jrow \<Rightarrow> bool option" where
  "eval_where args conds r = foldl sql_and (Some True) (map (\<lambda>c. eval_cond args c r) conds)"

text \<open>
  What makes the server or the driver reject a statement: a conjunct that names the table
  \<open>g\<close> when the geometry table is not joined, a column that does not exist, an argument
  of the wrong type or that does not fit the type of its placeholder, and a list of
  arguments that is not exactly the placeholders \<open>$1 \<dots> $n\<close> of the statement.
\<close>

definition cond_params :: "cond \<Rightarrow> nat list" where
  "cond_params c =
     (case c of
        DatasetEq \<Rightarrow> [1]
      | SeedNameEq idx \<Rightarrow> [idx]
      | MethodAny idx \<Rightarrow> [idx]
      | GeomRange f idx \<Rightarrow> [idx, idx + 1]
      | MolRange f idx \<Rightarrow> [idx, idx + 1])"

definition cond_ok :: "bool \<Rightarrow> sql_arg list \<Rightarrow> cond \<Rightarrow> bool" where
  "cond_ok joined args c =
     (case c of
        DatasetEq \<Rightarrow> (case param args 1 of Some (ArgText d) \<Rightarrow> True | _ \<Rightarrow> False)
      | SeedNameEq idx \<Rightarrow> (case param args idx of Some (ArgText s) \<Rightarrow> True | _ \<Rightarrow> False)
      | MethodAny idx \<Rightarrow> (case param args idx of Some (ArgTextArray ms) \<Rightarrow> True | _ \<Rightarrow> False)
      | GeomRange f idx \<Rightarrow>
          joined \<and>
          (case (num_col (GCol f), bound_param (GCol f) args idx, bound_param (GCol f) args (idx + 1)) of
             (Some col, Some lo, Some hi) \<Rightarrow> True
           | _ \<Rightarrow> False)
      | MolRange f idx \<Rightarrow>
          (case (num_col (MCol f), bound_param (MCol f) args idx, bound_param (MCol f) args (idx + 1)) of
             (Some col, Some lo, Some hi) \<Rightarrow> True
           | _ \<Rightarrow> False))"

definition stmt_ok :: "bool \<Rightarrow> cond list \<Rightarrow> nat list \<Rightarrow> sql_arg list \<Rightarrow> bool" where
  "stmt_ok joined conds extra args =
     (list_all (cond_ok joined args) conds
      \<and> set (concat (map cond_params conds) @ extra) = {1..length args})"

text \<open>The rows of \<open>FROM \<dots> WHERE \<dots>\<close>, in the order of the table.\<close>

definition where_rows ::
  "database \<Rightarrow> bool \<Rightarrow> cond list \<Rightarrow> nat list \<Rightarrow> sql_arg list \<Rightarrow> sql_error + jrow list"
where
  "where_rows db joined conds extra args =
     (if stmt_ok joined conds extra args
      then Inr (filter (\<lambda>r. eval_where args conds r = Some True) (from_rows db joined))
      else Inl SqlError)"

text \<open>
  \<open>SELECT \<dots> FROM \<dots> WHERE \<dots> ORDER BY order LIMIT $li OFFSET $oi\<close>. The ordering is
  the parameter \<open>ob\<close>, the engine's reading of the text after \<open>ORDER BY\<close>: it rejects
  the text, or gives the order in which the statement with this \<open>LIMIT\<close> and this
  \<open>OFFSET\<close> goes through the rows. Rows that the sort keys do not tell apart have no
  fixed order, and two statements that differ in \<open>LIMIT\<close> or \<open>OFFSET\<close> may be answered
  in two orders. The two placeholders are \<open>bigint\<close>; a negative \<open>LIMIT\<close> or \<open>OFFSET\<close>
  is rejected by the server, and one that does not fit the type by the driver.
\<close>

type_synonym ordering = "string \<Rightarrow> (int \<Rightarrow> int \<Rightarrow> jrow list \<Rightarrow> jrow list) option"

definition fetch_page ::
  "ordering \<Rightarrow> database \<Rightarrow> bool \<Rightarrow> cond list \<Rightarrow> string
     \<Rightarrow> nat \<Rightarrow> nat \<Rightarrow> sql_arg list \<Rightarrow> sql_error + mol_row list"
where
  "fetch_page ob db joined conds order_by li oi args =
     (case where_rows db joined conds [li, oi] args of
        Inl e \<Rightarrow> Inl e
      | Inr rows \<Rightarrow>
          (case (ob order_by, param args li, param args oi) of
             (Some ord, Some (ArgInt l), Some (ArgInt off)) \<Rightarrow>
               if l < 0 \<or> off < 0 \<or> \<not> int8_range l \<or> \<not> int8_range off then Inl SqlError
               else Inr (map fst (take (nat l) (drop (nat off) (ord l off rows))))
           | _ \<Rightarrow> Inl SqlError))"

text \<open>\<open>SELECT COUNT(*) FROM \<dots> WHERE \<dots>\<close>\<close>

definition fetch_count ::
  "database \<Rightarrow> bool \<Rightarrow> cond list \<Rightarrow> sql_arg list \<Rightarrow> sql_error + nat"
where
  "fetch_count db joined conds args =
     (case where_rows db joined conds [] args of
        Inl e \<Rightarrow> Inl e
      | Inr rows \<Rightarrow> Inr (length rows))"




section \<open>app/main.py: query_molecules and aggregates_molecules\<close>

record query_result =
  res_molecules :: "mol_row list"
  res_total :: nat
  res_limit :: int
  res_offset :: int

definition query_molecules ::
  "ordering \<Rightarrow> database \<Rightarrow> string \<Rightarrow> MoleculesQueryBody \<Rightarrow> sql_error + query_result"
where
  "query_molecules ob db dataset_id body =
     (let page = (case body_page body of Some p \<Rightarrow> p | None \<Rightarrow> default_Page);
          (conds, args) = build_where dataset_id body;
          joined = use_geom body;
          order_by = order_clause body;
          n = length args;
          args' = args @ [ArgInt (page_limit page), ArgInt (page_offset page)]
      in case fetch_page ob db joined conds order_by (n + 1) (n + 2) args' of
           Inl e \<Rightarrow> Inl e
         | Inr rows \<Rightarrow>
             (case fetch_count db joined conds (take n args') of
                Inl e \<Rightarrow> Inl e
              | Inr total_count \<Rightarrow>
                  Inr \<lparr>res_molecules = rows, res_total = total_count,
                       res_limit = page_limit page, res_offset = page_offset page\<rparr>))"





section \<open>The filter, in the words of the specification\<close>

text \<open>
  These definitions follow the specification, not the source: the allow-list of range
  fields, the value of an allow-listed field on a row of the join, the inclusive range test
  and the test of a whole request. The theorems compare the builder with them.
\<close>

definition allowed_fields :: "string list" where
  "allowed_fields =
     [''molecular_weight'', ''TPSA'', ''XLogP3'', ''HBA'', ''HBD'', ''rotatable_bonds'',
      ''mmff94_energy'', ''shape_volume'']"

definition field_value :: "string \<Rightarrow> jrow \<Rightarrow> real option" where
  "field_value f r =
     (if f = ''molecular_weight'' then m_molecular_weight (fst r)
      else if f = ''TPSA'' then m_tpsa (fst r)
      else if f = ''XLogP3'' then m_xlogp3 (fst r)
      else if f = ''HBA'' then map_option real_of_int (m_hba (fst r))
      else if f = ''HBD'' then map_option real_of_int (m_hbd (fst r))
      else if f = ''rotatable_bonds'' then map_option real_of_int (m_rotatable_bonds (fst r))
      else if f = ''mmff94_energy'' then (case snd r of None \<Rightarrow> None | Some g \<Rightarrow> g_mmff94_energy g)
      else if f = ''shape_volume'' then (case snd r of None \<Rightarrow> None | Some g \<Rightarrow> g_shape_volume g)
      else None)"

text \<open>A range entry that counts: at least two bounds, and a field of the allow-list.\<close>

definition usable_range :: "string \<times> real list \<Rightarrow> bool" where
  "usable_range e = (length (snd e) \<ge> 2 \<and> fst e \<in> set allowed_fields)"

text \<open>The field has a value, and the value lies between the two bounds, ends included.\<close>

definition in_range :: "string \<times> real list \<Rightarrow> jrow \<Rightarrow> bool" where
  "in_range e r =
     (case field_value (fst e) r of
        None \<Rightarrow> False
      | Some v \<Rightarrow> snd e ! 0 \<le> v \<and> v \<le> snd e ! 1)"

definition the_ranges :: "MoleculesQueryBody \<Rightarrow> (string \<times> real list) list" where
  "the_ranges body = (case body_ranges body of None \<Rightarrow> [] | Some rs \<Rightarrow> rs)"

text \<open>The dataset, the seed family and the discovery methods of a row fit the request.\<close>

definition head_spec :: "string \<Rightarrow> MoleculesQueryBody \<Rightarrow> jrow \<Rightarrow> bool" where
  "head_spec dataset_id body r =
     (m_dataset_id (fst r) = dataset_id
      \<and> (case body_seed_name body of
           None \<Rightarrow> True
         | Some s \<Rightarrow> s = [] \<or> m_seed_name (fst r) = Some s)
      \<and> (case body_methods body of
           None \<Rightarrow> True
         | Some ms \<Rightarrow>
             ms = [] \<or> (case m_discovery_method (fst r) of None \<Rightarrow> False | Some x \<Rightarrow> x \<in> set ms)))"

definition filter_spec :: "string \<Rightarrow> MoleculesQueryBody \<Rightarrow> jrow \<Rightarrow> bool" where
  "filter_spec dataset_id body r =
     (head_spec dataset_id body r
      \<and> list_all (\<lambda>e. \<not> usable_range e \<or> in_range e r) (the_ranges body))"

section \<open>The filter, as the database evaluates it\<close>

text \<open>
  The count fields are the allow-listed fields with an integer column. The database
  compares such a column with the bound that the driver sent, the bound without its
  fraction; the driver sends nothing and raises when that integer does not fit four bytes.
\<close>

definition count_fields :: "string list" where
  "count_fields = [''HBA'', ''HBD'', ''rotatable_bonds'']"

definition sent_bound :: "string \<Rightarrow> real \<Rightarrow> real" where
  "sent_bound f x = (if f \<in> set count_fields then real_of_int (int_of_float x) else x)"

definition accepted_range :: "string \<times> real list \<Rightarrow> bool" where
  "accepted_range e =
     (fst e \<notin> set count_fields
      \<or> (int4_range (int_of_float (snd e ! 0)) \<and> int4_range (int_of_float (snd e ! 1))))"

definition sent_range :: "string \<times> real list \<Rightarrow> jrow \<Rightarrow> bool" where
  "sent_range e r =
     (case field_value (fst e) r of
        None \<Rightarrow> False
      | Some v \<Rightarrow> sent_bound (fst e) (snd e ! 0) \<le> v \<and> v \<le> sent_bound (fst e) (snd e ! 1))"

text \<open>Every range entry that counts has bounds that the driver can send.\<close>

definition accepted :: "MoleculesQueryBody \<Rightarrow> bool" where
  "accepted body = list_all (\<lambda>e. \<not> usable_range e \<or> accepted_range e) (the_ranges body)"

definition db_filter :: "string \<Rightarrow> MoleculesQueryBody \<Rightarrow> jrow \<Rightarrow> bool" where
  "db_filter dataset_id body r =
     (head_spec dataset_id body r
      \<and> list_all (\<lambda>e. \<not> usable_range e \<or> sent_range e r) (the_ranges body))"



section \<open>What is assumed of the engine's orderings\<close>

text \<open>An ordering of the engine only reorders: the rows it returns are the rows it got.\<close>

definition reorders :: "ordering \<Rightarrow> bool" where
  "reorders ob =
     (\<forall>t ord l off rows. ob t = Some ord \<longrightarrow> mset (ord l off rows) = mset rows)"

text \<open>Under \<open>ORDER BY m.cid ASC\<close> the identifiers of the rows ascend.\<close>

definition orders_by_cid :: "ordering \<Rightarrow> bool" where
  "orders_by_cid ob =
     (\<forall>ord l off rows. ob ''m.cid ASC'' = Some ord \<longrightarrow>
        sorted (map (\<lambda>r. m_cid (fst r)) (ord l off rows)))"

text \<open>
  The primary key of \<open>discovered_molecule\<close>, the conflict target of \<open>upsert_molecules\<close>:
  no two rows have the same dataset and identifier.
\<close>

definition primary_key :: "database \<Rightarrow> bool" where
  "primary_key db =
     distinct (map (\<lambda>m. (m_dataset_id m, m_cid m)) (discovered_molecule db))"

section \<open>Paging through a request\<close>

text \<open>
  The request \<open>body\<close> with page size \<open>L\<close> at the offset \<open>k * L\<close>, and the molecules that
  \<open>query_molecules\<close> returns for it (none when the query raises).
\<close>

definition nth_page ::
  "ordering \<Rightarrow> database \<Rightarrow> string \<Rightarrow> MoleculesQueryBody \<Rightarrow> int \<Rightarrow> nat
     \<Rightarrow> sql_error + query_result"
where
  "nth_page ob db dataset_id body L k =
     query_molecules ob db dataset_id
       (body\<lparr>body_page := Some \<lparr>page_limit = L, page_offset = int k * L\<rparr>\<rparr>)"

definition page_molecules ::
  "ordering \<Rightarrow> database \<Rightarrow> string \<Rightarrow> MoleculesQueryBody \<Rightarrow> int \<Rightarrow> nat \<Rightarrow> mol_row list"
where
  "page_molecules ob db dataset_id body L k =
     (case nth_page ob db dataset_id body L k of
        Inr res \<Rightarrow> res_molecules res
      | Inl e \<Rightarrow> [])"

section \<open>Example data\<close>

text \<open>A small dataset, for the theorems that are checked on concrete input.\<close>

definition example_molecule :: "int \<Rightarrow> real option \<Rightarrow> mol_row" where
  "example_molecule c w =
     \<lparr>m_dataset_id = ''ds'', m_cid = c, m_smiles = None, m_inchi_key = None,
      m_molecular_formula = None, m_molecular_weight = w, m_exact_mass = None,
      m_xlogp3 = None, m_tpsa = None, m_hba = None, m_hbd = None, m_rotatable_bonds = None,
      m_discovery_method = Some ''sim2d'', m_discovery_seed = None, m_seed_name = None,
      m_seed_smiles = None, m_name = None, m_ingest_run_id = None\<rparr>"

definition example_geometry :: "real option \<Rightarrow> geom_row" where
  "example_geometry v =
     \<lparr>g_conformer_id = None, g_mmff94_energy = None, g_conformer_rmsd = None,
      g_effective_rotor_count = None, g_shape_volume = v, g_shape_selfoverlap = None,
      g_heavy_atom_count = None, g_component_count = None, g_ingest_run_id = ''run''\<rparr>"

definition example_db :: database where
  "example_db =
     \<lparr>discovered_molecule =
        [example_molecule 1 (Some 150), example_molecule 2 (Some 100),
         example_molecule 3 (Some 200), example_molecule 4 None],
      molecule_geometry =
        [(''ds'', 1) \<mapsto> example_geometry (Some 5), (''ds'', 2) \<mapsto> example_geometry None],
      molecule_geometry_cold = Map.empty\<rparr>"

definition example_body :: "(string \<times> real list) list \<Rightarrow> Page option \<Rightarrow> MoleculesQueryBody" where
  "example_body rs pg =
     \<lparr>body_seed_name = None, body_methods = None, body_ranges = Some rs, body_sort = None,
      body_page = pg\<rparr>"

text \<open>An engine that accepts every \<open>ORDER BY\<close> text and leaves the rows in the order of the table.\<close>

definition table_order :: ordering where
  "table_order t = Some (\<lambda>l off rows. rows)"

text \<open>An engine that answers every statement in the order of the identifiers.\<close>

definition cid_order :: ordering where
  "cid_order t = Some (\<lambda>l off rows. sort_key (\<lambda>r. m_cid (fst r)) rows)"

text \<open>
  Two molecules of the same weight, a request that sorts by weight, and an engine that
  goes through rows of equal sort key in the order of the table when the offset is 0 and
  in the opposite order otherwise.
\<close>

definition tie_db :: database where
  "tie_db =
     \<lparr>discovered_molecule = [example_molecule 1 (Some 100), example_molecule 2 (Some 100)],
      molecule_geometry = Map.empty,
      molecule_geometry_cold = Map.empty\<rparr>"

definition by_weight :: MoleculesQueryBody where
  "by_weight =
     \<lparr>body_seed_name = None, body_methods = None, body_ranges = None,
      body_sort = Some [\<lparr>sort_field = ''molecular_weight'', sort_dir = ''asc''\<rparr>],
      body_page = None\<rparr>"

definition tie_order :: ordering where
  "tie_order t = Some (\<lambda>l off rows. if off = 0 then rows else rev rows)"

section \<open>ingest/csv_ingest.py: the cells of a manifest\<close>

text \<open>
  A value of a cell of the data frame, as \<open>iterrows\<close> hands it over: a float, an integer, a
  boolean or, in a column where some cell is not a number, a string. A cell is \<open>None\<close>
  when \<open>pd.isna\<close> holds of it (an empty cell, read as NaN). A row \<open>r\<close> maps the names of
  the columns of the file to cells, and \<open>r.get(name)\<close> is \<open>None\<close> for a name that is
  not a column.
\<close>

datatype scalar = SFloat real | SInt int | SBool bool | SStr string

type_synonym series = "string \<rightharpoonup> scalar option"

definition get :: "series \<Rightarrow> string \<Rightarrow> scalar option" where
  "get r name = (case r name of None \<Rightarrow> None | Some c \<Rightarrow> c)"

text \<open>
  The built-in conversions of Python are not code of the program; they are parameters.
  \<open>float_str s\<close> and \<open>int_str s\<close> are \<open>float(s)\<close> and \<open>int(s)\<close> for a string \<open>s\<close>,
  \<open>None\<close> when the call raises \<open>ValueError\<close>; \<open>str_float\<close> and \<open>str_int\<close> are
  \<open>str\<close> on a float and on an integer.
\<close>

record builtins =
  float_str :: "string \<Rightarrow> real option"
  int_str :: "string \<Rightarrow> int option"
  str_float :: "real \<Rightarrow> string"
  str_int :: "int \<Rightarrow> string"

datatype py_error = ValueError

definition py_float :: "builtins \<Rightarrow> scalar \<Rightarrow> py_error + real" where
  "py_float B v =
     (case v of
        SFloat x \<Rightarrow> Inr x
      | SInt i \<Rightarrow> Inr (real_of_int i)
      | SBool b \<Rightarrow> Inr (if b then 1 else 0)
      | SStr s \<Rightarrow> (case float_str B s of None \<Rightarrow> Inl ValueError | Some x \<Rightarrow> Inr x))"

definition py_int :: "builtins \<Rightarrow> scalar \<Rightarrow> py_error + int" where
  "py_int B v =
     (case v of
        SFloat x \<Rightarrow> Inr (int_of_float x)
      | SInt i \<Rightarrow> Inr i
      | SBool b \<Rightarrow> Inr (if b then 1 else 0)
      | SStr s \<Rightarrow> (case int_str B s of None \<Rightarrow> Inl ValueError | Some i \<Rightarrow> Inr i))"

definition py_str :: "builtins \<Rightarrow> scalar \<Rightarrow> string" where
  "py_str B v =
     (case v of
        SFloat x \<Rightarrow> str_float B x
      | SInt i \<Rightarrow> str_int B i
      | SBool b \<Rightarrow> (if b then ''True'' else ''False'')
      | SStr s \<Rightarrow> s)"

section \<open>ingest/csv_ingest.py: build_molecule_rows\<close>

text \<open>
  The three shapes of the entries of the dictionary of a row:
  \<open>None if pd.isna(r.get(k)) else str(r[k]).strip() or None\<close>,
  \<open>None if pd.isna(r.get(k)) else float(r[k])\<close> and
  \<open>None if pd.isna(r.get(k)) else int(r[k])\<close>. The last two have no handler around
  the conversion: its exception leaves \<open>build_molecule_rows\<close>.
\<close>

definition text_field :: "builtins \<Rightarrow> series \<Rightarrow> string \<Rightarrow> string option" where
  "text_field B r k = (case get r k of None \<Rightarrow> None | Some v \<Rightarrow> or_none (strip (py_str B v)))"

definition float_field :: "builtins \<Rightarrow> series \<Rightarrow> string \<Rightarrow> py_error + real option" where
  "float_field B r k =
     (case get r k of
        None \<Rightarrow> Inr None
      | Some v \<Rightarrow> (case py_float B v of Inl e \<Rightarrow> Inl e | Inr x \<Rightarrow> Inr (Some x)))"

definition int_field :: "builtins \<Rightarrow> series \<Rightarrow> string \<Rightarrow> py_error + int option" where
  "int_field B r k =
     (case get r k of
        None \<Rightarrow> Inr None
      | Some v \<Rightarrow> (case py_int B v of Inl e \<Rightarrow> Inl e | Inr i \<Rightarrow> Inr (Some i)))"

text \<open>
  The identifier of a row: \<open>None\<close> where the loop says \<open>continue\<close>, on a cell that is
  missing and on one that \<open>int(float(cid))\<close> rejects (the only conversion with a handler).
\<close>

definition row_cid :: "builtins \<Rightarrow> series \<Rightarrow> int option" where
  "row_cid B r =
     (case get r ''PubChem_CID'' of
        None \<Rightarrow> None
      | Some v \<Rightarrow> (case py_float B v of Inl e \<Rightarrow> None | Inr x \<Rightarrow> Some (int_of_float x)))"

definition then_do :: "py_error + 'a \<Rightarrow> ('a \<Rightarrow> py_error + 'b) \<Rightarrow> py_error + 'b" where
  "then_do m f = (case m of Inl e \<Rightarrow> Inl e | Inr x \<Rightarrow> f x)"

text \<open>The dictionary that the loop appends for a row with the identifier \<open>cid\<close>.\<close>

definition molecule_row :: "builtins \<Rightarrow> string \<Rightarrow> string \<Rightarrow> series \<Rightarrow> int \<Rightarrow> py_error + mol_row" where
  "molecule_row B dataset_id run_id r cid =
     (let seed_raw = get r ''discovery_seed'';
          seed = parse_discovery_seed (map_option (py_str B) seed_raw);
          method = normalize_discovery_method (map_option (py_str B) (get r ''discovery_method''))
      in then_do (float_field B r ''molecular_weight'') (\<lambda>molecular_weight.
         then_do (float_field B r ''exact_mass'') (\<lambda>exact_mass.
         then_do (float_field B r ''XLogP3'') (\<lambda>xlogp3.
         then_do (float_field B r ''TPSA'') (\<lambda>tpsa.
         then_do (int_field B r ''HBA'') (\<lambda>hba.
         then_do (int_field B r ''HBD'') (\<lambda>hbd.
         then_do (int_field B r ''rotatable_bonds'') (\<lambda>rotatable_bonds.
           Inr \<lparr>m_dataset_id = dataset_id, m_cid = cid,
                m_smiles = text_field B r ''SMILES'',
                m_inchi_key = text_field B r ''InChIKey'',
                m_molecular_formula = text_field B r ''molecular_formula'',
                m_molecular_weight = molecular_weight, m_exact_mass = exact_mass,
                m_xlogp3 = xlogp3, m_tpsa = tpsa, m_hba = hba, m_hbd = hbd,
                m_rotatable_bonds = rotatable_bonds,
                m_discovery_method = Some method,
                m_discovery_seed = text_field B r ''discovery_seed'',
                m_seed_name = fst seed, m_seed_smiles = snd seed,
                m_name = text_field B r ''name'',
                m_ingest_run_id = Some run_id\<rparr>))))))))"

text \<open>The loop over \<open>df.iterrows()\<close>, on the list \<open>rows\<close>.\<close>

fun rows_loop ::
  "builtins \<Rightarrow> string \<Rightarrow> string \<Rightarrow> series list \<Rightarrow> mol_row list \<Rightarrow> py_error + mol_row list"
where
  "rows_loop B dataset_id run_id [] rows = Inr rows"
| "rows_loop B dataset_id run_id (r # rest) rows =
     (case row_cid B r of
        None \<Rightarrow> rows_loop B dataset_id run_id rest rows
      | Some cid \<Rightarrow>
          (case molecule_row B dataset_id run_id r cid of
             Inl e \<Rightarrow> Inl e
           | Inr row \<Rightarrow> rows_loop B dataset_id run_id rest (rows @ [row])))"

definition build_molecule_rows ::
  "builtins \<Rightarrow> series list \<Rightarrow> string \<Rightarrow> string \<Rightarrow> py_error + mol_row list"
where
  "build_molecule_rows B df dataset_id run_id = rows_loop B dataset_id run_id df []"

text \<open>
  The cell of the column \<open>k\<close> is a string that the conversion of the column rejects:
  \<open>float\<close> for the four float fields, \<open>int\<close> for the three count fields.
\<close>

definition float_columns :: "string list" where
  "float_columns = [''molecular_weight'', ''exact_mass'', ''XLogP3'', ''TPSA'']"

definition int_columns :: "string list" where
  "int_columns = [''HBA'', ''HBD'', ''rotatable_bonds'']"

definition rejected_cell :: "builtins \<Rightarrow> series \<Rightarrow> string \<Rightarrow> bool" where
  "rejected_cell B r k =
     (case get r k of
        Some (SStr s) \<Rightarrow>
          (k \<in> set float_columns \<and> float_str B s = None)
          \<or> (k \<in> set int_columns \<and> int_str B s = None)
      | _ \<Rightarrow> False)"

section \<open>Example data of a manifest\<close>

text \<open>
  The values of \<open>float\<close> and \<open>int\<close> on the strings of the examples: \<open>float\<close> raises
  on \<open>"abc"\<close>, and \<open>int\<close> raises on \<open>"abc"\<close> and on \<open>"3.0"\<close>. No example has a
  number in a text column, so \<open>str\<close> is never called on a number there.
\<close>

definition example_builtins :: builtins where
  "example_builtins =
     \<lparr>float_str = map_of [(''2244'', 2244), (''180'', 180), (''3.0'', 3), (''3'', 3)],
      int_str = map_of [(''2244'', 2244), (''180'', 180), (''3'', 3)],
      str_float = (\<lambda>x. ''0.0''),
      str_int = (\<lambda>i. ''0'')\<rparr>"

text \<open>
  A manifest row with the identifier 2244, the weight cell \<open>w\<close> and the acceptor count
  cell \<open>h\<close>.
\<close>

definition example_series :: "scalar option \<Rightarrow> scalar option \<Rightarrow> series" where
  "example_series w h =
     [''PubChem_CID'' \<mapsto> Some (SStr ''2244''), ''SMILES'' \<mapsto> Some (SStr ''CC(=O)O''),
      ''InChIKey'' \<mapsto> None, ''molecular_formula'' \<mapsto> None,
      ''molecular_weight'' \<mapsto> w, ''exact_mass'' \<mapsto> None, ''HBA'' \<mapsto> h,
      ''discovery_method'' \<mapsto> None, ''discovery_seed'' \<mapsto> Some (SStr ''aspirin'')]"

section \<open>ingest/sdf_ingest.py: the records of a structure file\<close>

text \<open>
  \<open>iter_sdf_records\<close> yields tuples \<open>(cid, molblock, hot, cold)\<close>. The dictionary
  \<open>hot\<close> has the eight keys of \<open>HOT_TAGS\<close>, each with a value of the type of its column
  or \<open>None\<close>, and \<open>cold\<close> has the four keys of \<open>COLD_TAGS\<close>.
\<close>

record hot_dict =
  h_conformer_id :: "string option"
  h_mmff94_energy :: "real option"
  h_conformer_rmsd :: "real option"
  h_effective_rotor_count :: "int option"
  h_shape_volume :: "real option"
  h_shape_selfoverlap :: "real option"
  h_heavy_atom_count :: "int option"
  h_component_count :: "int option"

record cold_dict =
  b_shape_fingerprint :: "string option"
  b_pharmacophore_features :: "string option"
  b_mmff94_partial_charges :: "string option"
  b_coordinate_type :: "string option"

type_synonym sdf_record = "int \<times> string \<times> hot_dict \<times> cold_dict"

text \<open>
  A molecule object, as far as the generator looks at it: its properties by name, which
  \<open>HasProp\<close> and \<open>GetProp\<close> read. RDKit is not code of the repository: the parser
  \<open>Chem.MolFromMolBlock\<close> is a parameter, a function from the text of a block to the
  molecule, \<open>None\<close> where the call returns \<open>None\<close>.
\<close>

type_synonym mol = "string \<rightharpoonup> string"

type_synonym mol_parser = "string \<Rightarrow> mol option"

text \<open>
  \<open>str.splitlines\<close>: the line boundaries among the characters below 256, with
  \<open>"\r\n"\<close> as one boundary, and no empty last line after a final boundary.
\<close>

definition line_breaks :: "char list" where
  "line_breaks =
     [CHR 0x0A, CHR 0x0B, CHR 0x0C, CHR 0x0D, CHR 0x1C, CHR 0x1D, CHR 0x1E, CHR 0x85]"

fun splitlines_from :: "string \<Rightarrow> string \<Rightarrow> string list" where
  "splitlines_from cur [] = (if cur = [] then [] else [cur])"
| "splitlines_from cur [c] = (if c \<in> set line_breaks then [cur] else [cur @ [c]])"
| "splitlines_from cur (c # d # cs) =
     (if c = CHR 0x0D \<and> d = CHR 0x0A then cur # splitlines_from [] cs
      else if c \<in> set line_breaks then cur # splitlines_from [] (d # cs)
      else splitlines_from (cur @ [c]) (d # cs))"

definition splitlines :: "string \<Rightarrow> string list" where
  "splitlines s = splitlines_from [] s"

text \<open>
  The entries of \<open>hot\<close>: a tag that the molecule does not have gives \<open>None\<close>, and so does
  a value that \<open>float\<close> rejects; the conformer identifier is kept as text, the counts are
  \<open>int(float(val))\<close>. The entries of \<open>cold\<close> are the values of the tags, or \<open>None\<close>.
  A float is a real number here, as for the manifest: there is no infinite float and no
  not-a-number, so a text that \<open>float\<close> reads as one of them, on which \<open>int\<close> raises,
  has no reading of its own.
\<close>

definition float_tag :: "builtins \<Rightarrow> mol \<Rightarrow> string \<Rightarrow> real option" where
  "float_tag B m tag = (case m tag of None \<Rightarrow> None | Some val \<Rightarrow> float_str B val)"

definition int_tag :: "builtins \<Rightarrow> mol \<Rightarrow> string \<Rightarrow> int option" where
  "int_tag B m tag =
     (case m tag of None \<Rightarrow> None | Some val \<Rightarrow> map_option int_of_float (float_str B val))"

definition hot_of :: "builtins \<Rightarrow> mol \<Rightarrow> hot_dict" where
  "hot_of B m =
     \<lparr>h_conformer_id = m ''PUBCHEM_CONFORMER_ID'',
      h_mmff94_energy = float_tag B m ''PUBCHEM_MMFF94_ENERGY'',
      h_conformer_rmsd = float_tag B m ''PUBCHEM_CONFORMER_RMSD'',
      h_effective_rotor_count = int_tag B m ''PUBCHEM_EFFECTIVE_ROTOR_COUNT'',
      h_shape_volume = float_tag B m ''PUBCHEM_SHAPE_VOLUME'',
      h_shape_selfoverlap = float_tag B m ''PUBCHEM_SHAPE_SELFOVERLAP'',
      h_heavy_atom_count = int_tag B m ''PUBCHEM_HEAVY_ATOM_COUNT'',
      h_component_count = int_tag B m ''PUBCHEM_COMPONENT_COUNT''\<rparr>"

definition cold_of :: "mol \<Rightarrow> cold_dict" where
  "cold_of m =
     \<lparr>b_shape_fingerprint = m ''PUBCHEM_SHAPE_FINGERPRINT'',
      b_pharmacophore_features = m ''PUBCHEM_PHARMACOPHORE_FEATURES'',
      b_mmff94_partial_charges = m ''PUBCHEM_MMFF94_PARTIAL_CHARGES'',
      b_coordinate_type = m ''PUBCHEM_COORDINATE_TYPE''\<rparr>"

text \<open>
  What the generator does with one block that ends in a \<open>$$$$\<close> line: \<open>None\<close> where it
  says \<open>continue\<close> (the parser returns \<open>None\<close>, the molecule has no
  \<open>PUBCHEM_COMPOUND_CID\<close> or an empty one, or \<open>int(float(cid))\<close> raises), the record that
  it yields otherwise.
\<close>

definition sdf_record_of :: "mol_parser \<Rightarrow> builtins \<Rightarrow> string \<Rightarrow> sdf_record option" where
  "sdf_record_of MolFromMolBlock B mol_block =
     (case MolFromMolBlock mol_block of
        None \<Rightarrow> None
      | Some m \<Rightarrow>
          (case m ''PUBCHEM_COMPOUND_CID'' of
             None \<Rightarrow> None
           | Some cid \<Rightarrow>
               if cid = [] then None
               else (case float_str B cid of
                       None \<Rightarrow> None
                     | Some x \<Rightarrow> Some (int_of_float x, mol_block, hot_of B m, cold_of m))))"

text \<open>The loop over the lines, on the list \<open>current\<close>.\<close>

fun sdf_lines :: "mol_parser \<Rightarrow> builtins \<Rightarrow> string list \<Rightarrow> string list \<Rightarrow> sdf_record list" where
  "sdf_lines MolFromMolBlock B [] current = []"
| "sdf_lines MolFromMolBlock B (line # rest) current =
     (if strip line = ''$$$$'' then
        (case sdf_record_of MolFromMolBlock B (join_str [CHR 0x0A] (current @ [line])) of
           None \<Rightarrow> sdf_lines MolFromMolBlock B rest []
         | Some record \<Rightarrow> record # sdf_lines MolFromMolBlock B rest [])
      else sdf_lines MolFromMolBlock B rest (current @ [line]))"

text \<open>
  \<open>iter_sdf_records\<close>. \<open>files path\<close> is the text of the file, unpacked and decoded, or
  \<open>None\<close> when there is no file; the generator reads the whole file before it yields the
  first record, and raises \<open>FileNotFoundError\<close> when there is no file. The result is the
  list of the records that it yields, or \<open>None\<close> for the exception.
\<close>

definition iter_sdf_records ::
  "mol_parser \<Rightarrow> builtins \<Rightarrow> (string \<Rightarrow> string option) \<Rightarrow> string \<Rightarrow> sdf_record list option"
where
  "iter_sdf_records MolFromMolBlock B files path =
     (case files path of
        None \<Rightarrow> None
      | Some block \<Rightarrow> Some (sdf_lines MolFromMolBlock B (splitlines block) []))"

section \<open>ingest/db.py: upsert_geometry\<close>

text \<open>
  The connection of an ingestion run: the database, and the number of write statements
  sent so far. No transaction is opened anywhere in the program, so every statement that
  succeeds is committed on its own. A statement can fail (the connection is lost, a
  constraint is violated): \<open>fl k\<close> tells whether the write statement number \<open>k\<close> of the
  run fails. A failing statement changes nothing and raises.
\<close>

datatype ingest_error = FileNotFound | WriteFailed

record connection =
  conn_db :: database
  conn_sent :: nat

definition execute ::
  "(nat \<Rightarrow> bool) \<Rightarrow> (database \<Rightarrow> database) \<Rightarrow> connection \<Rightarrow> (ingest_error + unit) \<times> connection"
where
  "execute fl stmt c =
     (if fl (conn_sent c) then (Inl WriteFailed, c\<lparr>conn_sent := conn_sent c + 1\<rparr>)
      else (Inr (), \<lparr>conn_db = stmt (conn_db c), conn_sent = conn_sent c + 1\<rparr>))"

text \<open>
  The two statements of \<open>upsert_geometry\<close>. The conflict target of each is the primary key
  and the update sets every column of the \<open>VALUES\<close> list but the key, so the row of the key
  is the new row whether the key was there or not.
\<close>

definition geometry_values :: "string \<Rightarrow> hot_dict \<Rightarrow> geom_row" where
  "geometry_values run_id hot =
     \<lparr>g_conformer_id = h_conformer_id hot, g_mmff94_energy = h_mmff94_energy hot,
      g_conformer_rmsd = h_conformer_rmsd hot,
      g_effective_rotor_count = h_effective_rotor_count hot,
      g_shape_volume = h_shape_volume hot, g_shape_selfoverlap = h_shape_selfoverlap hot,
      g_heavy_atom_count = h_heavy_atom_count hot, g_component_count = h_component_count hot,
      g_ingest_run_id = run_id\<rparr>"

definition cold_values :: "string \<Rightarrow> cold_dict \<Rightarrow> cold_row" where
  "cold_values molblock cold_blobs =
     \<lparr>c_molblock = molblock, c_shape_fingerprint = b_shape_fingerprint cold_blobs,
      c_pharmacophore_features = b_pharmacophore_features cold_blobs,
      c_mmff94_partial_charges = b_mmff94_partial_charges cold_blobs,
      c_coordinate_type = b_coordinate_type cold_blobs\<rparr>"

definition insert_geometry :: "string \<Rightarrow> string \<Rightarrow> int \<Rightarrow> hot_dict \<Rightarrow> database \<Rightarrow> database" where
  "insert_geometry dataset_id run_id cid hot db =
     db\<lparr>molecule_geometry := (molecule_geometry db)((dataset_id, cid) \<mapsto> geometry_values run_id hot)\<rparr>"

definition insert_geometry_cold ::
  "string \<Rightarrow> int \<Rightarrow> string \<Rightarrow> cold_dict \<Rightarrow> database \<Rightarrow> database"
where
  "insert_geometry_cold dataset_id cid molblock cold_blobs db =
     db\<lparr>molecule_geometry_cold :=
          (molecule_geometry_cold db)((dataset_id, cid) \<mapsto> cold_values molblock cold_blobs)\<rparr>"

definition upsert_geometry ::
  "(nat \<Rightarrow> bool) \<Rightarrow> string \<Rightarrow> string \<Rightarrow> int \<Rightarrow> hot_dict \<Rightarrow> string \<Rightarrow> cold_dict \<Rightarrow> connection
     \<Rightarrow> (ingest_error + unit) \<times> connection"
where
  "upsert_geometry fl dataset_id run_id cid hot molblock cold_blobs conn =
     (case execute fl (insert_geometry dataset_id run_id cid hot) conn of
        (Inl e, conn1) \<Rightarrow> (Inl e, conn1)
      | (Inr u, conn1) \<Rightarrow> execute fl (insert_geometry_cold dataset_id cid molblock cold_blobs) conn1)"

section \<open>ingest/cli.py: ingest_sdf\<close>

text \<open>The identifiers that \<open>SELECT cid FROM discovered_molecule WHERE dataset_id = $1\<close> returns.\<close>

definition valid_cids :: "database \<Rightarrow> string \<Rightarrow> int set" where
  "valid_cids db dataset_id =
     set (map m_cid (filter (\<lambda>m. m_dataset_id m = dataset_id) (discovered_molecule db)))"

text \<open>
  The inner loop, over the records of one file, on the state \<open>(count, skipped)\<close>
  (\<open>cnt\<close> stands for \<open>count\<close>) and the connection. An exception of \<open>upsert_geometry\<close> ends the run.
\<close>

fun record_loop ::
  "(nat \<Rightarrow> bool) \<Rightarrow> string \<Rightarrow> string \<Rightarrow> int set \<Rightarrow> sdf_record list \<Rightarrow> (nat \<times> nat) \<times> connection
     \<Rightarrow> (ingest_error + nat \<times> nat) \<times> connection"
where
  "record_loop fl dataset_id run_id valid [] (counts, conn) = (Inr counts, conn)"
| "record_loop fl dataset_id run_id valid ((cid, molblock, hot, cold) # rest) ((cnt, skipped), conn) =
     (if cid \<notin> valid then
        record_loop fl dataset_id run_id valid rest ((cnt, skipped + 1), conn)
      else
        (case upsert_geometry fl dataset_id run_id cid hot molblock cold conn of
           (Inl e, conn1) \<Rightarrow> (Inl e, conn1)
         | (Inr u, conn1) \<Rightarrow>
             record_loop fl dataset_id run_id valid rest ((cnt + 1, skipped), conn1)))"

text \<open>The outer loop, over the paths. An exception of the generator ends the run.\<close>

fun path_loop ::
  "(nat \<Rightarrow> bool) \<Rightarrow> mol_parser \<Rightarrow> builtins \<Rightarrow> (string \<Rightarrow> string option) \<Rightarrow> string \<Rightarrow> string
     \<Rightarrow> int set \<Rightarrow> string list \<Rightarrow> (nat \<times> nat) \<times> connection
     \<Rightarrow> (ingest_error + nat \<times> nat) \<times> connection"
where
  "path_loop fl MolFromMolBlock B files dataset_id run_id valid [] (counts, conn) = (Inr counts, conn)"
| "path_loop fl MolFromMolBlock B files dataset_id run_id valid (path # rest) (counts, conn) =
     (case iter_sdf_records MolFromMolBlock B files path of
        None \<Rightarrow> (Inl FileNotFound, conn)
      | Some records \<Rightarrow>
          (case record_loop fl dataset_id run_id valid records (counts, conn) of
             (Inl e, conn1) \<Rightarrow> (Inl e, conn1)
           | (Inr counts1, conn1) \<Rightarrow>
               path_loop fl MolFromMolBlock B files dataset_id run_id valid rest (counts1, conn1)))"

text \<open>
  \<open>ingest_sdf\<close>: the result is the pair \<open>(count, skipped)\<close> that the last line prints, or
  the exception, together with the connection at the end. \<open>uuid4\<close> is the identifier
  that \<open>uuid.uuid4()\<close> would give; a missing or empty \<open>run_id\<close> is replaced by it.
\<close>

definition ingest_sdf ::
  "(nat \<Rightarrow> bool) \<Rightarrow> mol_parser \<Rightarrow> builtins \<Rightarrow> (string \<Rightarrow> string option) \<Rightarrow> string \<Rightarrow> database
     \<Rightarrow> string \<Rightarrow> string list \<Rightarrow> string option \<Rightarrow> (ingest_error + nat \<times> nat) \<times> connection"
where
  "ingest_sdf fl MolFromMolBlock B files uuid4 db dataset_id sdf_paths run_id =
     (let valid = valid_cids db dataset_id;
          run = (case run_id of None \<Rightarrow> uuid4 | Some r \<Rightarrow> if r = [] then uuid4 else r)
      in path_loop fl MolFromMolBlock B files dataset_id run valid sdf_paths
           ((0, 0), \<lparr>conn_db = db, conn_sent = 0\<rparr>))"

section \<open>Ingestion: what the theorems speak of\<close>

text \<open>
  \<open>Chem.MolFromMolBlock\<close> reads the connection table of a block, up to \<open>M  END\<close>, and
  none of the data items (\<open>> <TAG>\<close> and its value) that follow it in a record of a
  structure file: the molecule that it returns has no \<open>PUBCHEM_COMPOUND_CID\<close>.
\<close>

definition drops_data_items :: "mol_parser \<Rightarrow> bool" where
  "drops_data_items MolFromMolBlock =
     (\<forall>block m. MolFromMolBlock block = Some m \<longrightarrow> m ''PUBCHEM_COMPOUND_CID'' = None)"


text \<open>The run identifier that \<open>ingest_sdf\<close> uses.\<close>

definition run_id_used :: "string \<Rightarrow> string option \<Rightarrow> string" where
  "run_id_used uuid4 run_id = (case run_id of None \<Rightarrow> uuid4 | Some r \<Rightarrow> if r = [] then uuid4 else r)"


section \<open>Example data of an ingestion run\<close>

text \<open>No statement fails; the second write statement of the run fails.\<close>

definition no_failure :: "nat \<Rightarrow> bool" where
  "no_failure k = False"

definition second_write_fails :: "nat \<Rightarrow> bool" where
  "second_write_fails k = (k = 1)"



text \<open>
  A structure file with two records, the first with the identifier 12345 and the second
  with the identifier 3 among its data items, and a parser that accepts every block and
  reads no data item.
\<close>

definition unlines :: "string list \<Rightarrow> string" where
  "unlines ls = concat (map (\<lambda>l. l @ [CHR 0x0A]) ls)"

definition example_sdf :: string where
  "example_sdf =
     unlines [''12345'', ''  example'', [], ''  0  0  0  0  0  0  0  0  0  0999 V2000'',
              ''M  END'', ''> <PUBCHEM_COMPOUND_CID>'', ''12345'', [], ''$$$$'',
              ''3'', ''  example'', [], ''  0  0  0  0  0  0  0  0  0  0999 V2000'',
              ''M  END'', ''> <PUBCHEM_COMPOUND_CID>'', ''3'', [], ''$$$$'']"

definition example_files :: "string \<Rightarrow> string option" where
  "example_files p = (if p = ''a.sdf'' then Some example_sdf else None)"

definition table_only :: mol_parser where
  "table_only block = Some Map.empty"

definition manifest_db :: database where
  "manifest_db =
     \<lparr>discovered_molecule =
        [example_molecule 1 (Some 150), example_molecule 2 (Some 100),
         example_molecule 3 (Some 200), example_molecule 4 None],
      molecule_geometry = Map.empty,
      molecule_geometry_cold = Map.empty\<rparr>"

section \<open>Verification: string helpers\<close>

lemmas str_eval =
  py_isspace_def py_whitespace_def lstrip_def rstrip_def strip_def lower_def lower_char_def
  upper_letters_def lower_letters_def or_none_def

lemma strip_Nil: "strip [] = []"
  by (simp add: strip_def lstrip_def rstrip_def)

lemma colon_not_space: "\<not> py_isspace (CHR '':'')"
  by (simp add: py_isspace_def py_whitespace_def)

lemma rstrip_append_nonspace: "\<not> py_isspace c \<Longrightarrow> rstrip (a @ c # b) = a @ c # rstrip b"
  by (simp add: rstrip_def dropWhile_append3)

lemma lstrip_append_nonspace: "\<not> py_isspace c \<Longrightarrow> lstrip (a @ c # b) = lstrip a @ c # b"
  by (simp add: lstrip_def dropWhile_append3)

lemma lstrip_rstrip_commute: "lstrip (rstrip a) = rstrip (lstrip a)"
proof (cases "\<forall>c\<in>set a. py_isspace c")
  case True
  then have e: "dropWhile py_isspace a = []" "dropWhile py_isspace (rev a) = []"
    by (simp_all add: dropWhile_eq_Nil_conv)
  show ?thesis unfolding lstrip_def rstrip_def e by simp
next
  case False
  then obtain x r where d: "dropWhile py_isspace a = x # r" and nx: "\<not> py_isspace x"
    by (metis dropWhile_eq_Nil_conv hd_dropWhile list.exhaust list.sel(1))
  have a: "a = takeWhile py_isspace a @ x # r"
    using d by (metis takeWhile_dropWhile_id)
  have "rstrip a = takeWhile py_isspace a @ x # rstrip r"
    using rstrip_append_nonspace[OF nx, of "takeWhile py_isspace a" r] a by simp
  moreover have "dropWhile py_isspace (takeWhile py_isspace a @ x # rstrip r) = x # rstrip r"
    using nx by (subst dropWhile_append2) (auto dest: set_takeWhileD)
  ultimately have "lstrip (rstrip a) = x # rstrip r"
    by (simp add: lstrip_def)
  moreover have "rstrip (lstrip a) = x # rstrip r"
    using rstrip_append_nonspace[OF nx, of "[]" r] d by (simp add: lstrip_def)
  ultimately show ?thesis by simp
qed

lemma strip_lstrip: "strip (lstrip a) = strip a"
  by (simp add: strip_def lstrip_rstrip_commute[symmetric]) (simp add: lstrip_def)

lemma strip_rstrip: "strip (rstrip a) = strip a"
  by (simp add: strip_def) (simp add: rstrip_def)

lemma strip_around: "\<not> py_isspace c \<Longrightarrow> strip (a @ c # b) = lstrip a @ c # rstrip b"
  by (simp add: strip_def rstrip_append_nonspace lstrip_append_nonspace)

lemma set_lstrip: "set (lstrip a) \<subseteq> set a"
  by (simp add: lstrip_def set_dropWhileD subsetI)

lemma set_strip: "set (strip a) \<subseteq> set a"
  unfolding strip_def lstrip_def rstrip_def
  by (metis set_dropWhileD set_rev subsetI)

lemma str_partition_first: "sep \<notin> set a \<Longrightarrow> str_partition sep (a @ sep # b) = (a, [sep], b)"
  by (induction a) auto

section \<open>Verification: the discovery seed\<close>

lemma parse_colon:
  assumes "CHR '':'' \<notin> set a"
  shows "parse_discovery_seed (Some (a @ CHR '':'' # b)) = (or_none (strip a), or_none (strip b))"
proof -
  let ?d = "a @ CHR '':'' # b"
  have s: "strip ?d = lstrip a @ CHR '':'' # rstrip b"
    by (rule strip_around[OF colon_not_space])
  have n: "CHR '':'' \<notin> set (lstrip a)"
    using assms set_lstrip by blast
  have p: "str_partition (CHR '':'') (strip ?d) = (lstrip a, [CHR '':''], rstrip b)"
    unfolding s by (rule str_partition_first[OF n])
  show ?thesis
    unfolding parse_discovery_seed_def
    by (simp add: p Let_def strip_lstrip strip_rstrip) (simp add: s)
qed

lemma parse_no_colon:
  assumes "CHR '':'' \<notin> set d" and "strip d \<noteq> []"
  shows "parse_discovery_seed (Some d) = (Some (strip d), None)"
proof -
  have "CHR '':'' \<notin> set (strip d)"
    using assms(1) set_strip by blast
  moreover have "d \<noteq> []"
    using assms(2) by (auto simp: strip_Nil)
  ultimately show ?thesis
    using assms(2) by (simp add: parse_discovery_seed_def)
qed

text \<open>
  C4, as the claim states it: the text after the first colon, trimmed, is the seed
  structural encoding (and the text before it the family name). The code returns null
  where that trimmed text is empty: \<open>"aspirin:"\<close> has the encoding null, not \<open>""\<close>,
  and \<open>":CCO"\<close> has the family name null.
\<close>

theorem parse_discovery_seed_empty_part_counterexample:
  "snd (parse_discovery_seed (Some ''aspirin:'')) \<noteq> Some (strip [])
   \<and> fst (parse_discovery_seed (Some '':CCO'')) \<noteq> Some (strip [])"
  by (simp add: parse_discovery_seed_def str_eval)

text \<open>
  C4, amended: discovery-seed parsing splits on the first colon. The trimmed text before
  the colon is the seed family name and the trimmed text after it is the seed structural
  encoding, each replaced by null when it is empty after trimming; with no colon the whole
  trimmed string is the family name and the encoding is null; null or blank input gives
  (null, null). \<open>"aspirin:CC(=O)OC1=CC=CC=C1C(=O)O"\<close> parses to
  \<open>("aspirin", "CC(=O)OC1=CC=CC=C1C(=O)O")\<close> and \<open>"aspirin"\<close> to \<open>("aspirin", null)\<close>.
\<close>

theorem parse_discovery_seed_first_colon:
  "parse_discovery_seed None = (None, None)
   \<and> (strip e = [] \<longrightarrow> parse_discovery_seed (Some e) = (None, None))
   \<and> (CHR '':'' \<notin> set a \<longrightarrow>
        parse_discovery_seed (Some (a @ CHR '':'' # b)) = (or_none (strip a), or_none (strip b)))
   \<and> (CHR '':'' \<notin> set d \<and> strip d \<noteq> [] \<longrightarrow>
        parse_discovery_seed (Some d) = (Some (strip d), None))
   \<and> parse_discovery_seed (Some ''aspirin:CC(=O)OC1=CC=CC=C1C(=O)O'')
        = (Some ''aspirin'', Some ''CC(=O)OC1=CC=CC=C1C(=O)O'')
   \<and> parse_discovery_seed (Some ''aspirin'') = (Some ''aspirin'', None)"
proof (intro conjI impI)
  show "parse_discovery_seed None = (None, None)"
    by (simp add: parse_discovery_seed_def)
  show "parse_discovery_seed (Some e) = (None, None)" if "strip e = []"
    using that by (simp add: parse_discovery_seed_def)
  show "parse_discovery_seed (Some (a @ CHR '':'' # b)) = (or_none (strip a), or_none (strip b))"
    if "CHR '':'' \<notin> set a"
    using that by (rule parse_colon)
  show "parse_discovery_seed (Some d) = (Some (strip d), None)"
    if "CHR '':'' \<notin> set d \<and> strip d \<noteq> []"
    using that by (simp add: parse_no_colon)
  show "parse_discovery_seed (Some ''aspirin:CC(=O)OC1=CC=CC=C1C(=O)O'')
          = (Some ''aspirin'', Some ''CC(=O)OC1=CC=CC=C1C(=O)O'')"
    by (simp add: parse_discovery_seed_def str_eval)
  show "parse_discovery_seed (Some ''aspirin'') = (Some ''aspirin'', None)"
    by (simp add: parse_discovery_seed_def str_eval)
qed

theorem parse_discovery_seed_first_colon_witness:
  "strip ''  '' = [] \<and> parse_discovery_seed (Some ''  '') = (None, None)
   \<and> CHR '':'' \<notin> set '' a b ''
   \<and> parse_discovery_seed (Some ('' a b '' @ CHR '':'' # '' C:C '')) = (Some ''a b'', Some ''C:C'')
   \<and> CHR '':'' \<notin> set '' caffeine'' \<and> strip '' caffeine'' \<noteq> []
   \<and> parse_discovery_seed (Some '' caffeine'') = (Some ''caffeine'', None)"
  using parse_discovery_seed_first_colon [of "''  ''" "'' a b ''" "'' C:C ''" "'' caffeine''"]
  by (simp add: str_eval)

section \<open>Verification: the discovery method\<close>

text \<open>
  C5: discovery-method normalization trims and lower-cases. Null or blank input yields
  \<open>"substructure"\<close>; \<open>"similarity"\<close> in any letter case yields \<open>"sim2d"\<close>; every other
  value, \<open>"substructure"\<close>, \<open>"sim2d"\<close> and \<open>"sim3d"\<close> among them, is returned trimmed and
  lower-cased, and nothing is rejected.
\<close>

theorem normalize_discovery_method_cases:
  "normalize_discovery_method None = ''substructure''
   \<and> (strip e = [] \<longrightarrow> normalize_discovery_method (Some e) = ''substructure'')
   \<and> (lower (strip x) = ''similarity'' \<longrightarrow> normalize_discovery_method (Some x) = ''sim2d'')
   \<and> (strip y \<noteq> [] \<and> lower (strip y) \<noteq> ''similarity'' \<longrightarrow>
        normalize_discovery_method (Some y) = lower (strip y))
   \<and> normalize_discovery_method (Some ''substructure'') = ''substructure''
   \<and> normalize_discovery_method (Some ''sim2d'') = ''sim2d''
   \<and> normalize_discovery_method (Some ''sim3d'') = ''sim3d''
   \<and> normalize_discovery_method (Some ''Similarity'') = ''sim2d''
   \<and> normalize_discovery_method (Some []) = ''substructure''
   \<and> normalize_discovery_method (Some ''SIM3D'') = ''sim3d''
   \<and> normalize_discovery_method (Some ''weird-method'') = ''weird-method''"
proof (intro conjI impI)
  show "normalize_discovery_method None = ''substructure''"
    by (simp add: normalize_discovery_method_def)
  show "normalize_discovery_method (Some e) = ''substructure''" if "strip e = []"
    using that by (simp add: normalize_discovery_method_def)
  show "normalize_discovery_method (Some x) = ''sim2d''" if "lower (strip x) = ''similarity''"
  proof -
    have "strip x \<noteq> []"
      using that by (auto simp: lower_def)
    moreover from this have "x \<noteq> []"
      by (auto simp: strip_Nil)
    ultimately show ?thesis
      using that by (simp add: normalize_discovery_method_def)
  qed
  show "normalize_discovery_method (Some y) = lower (strip y)"
    if "strip y \<noteq> [] \<and> lower (strip y) \<noteq> ''similarity''"
  proof -
    have "y \<noteq> []"
      using that by (auto simp: strip_Nil)
    then show ?thesis
      using that by (simp add: normalize_discovery_method_def Let_def)
  qed
qed (simp_all add: normalize_discovery_method_def str_eval)

theorem normalize_discovery_method_cases_witness:
  "strip '' '' = [] \<and> normalize_discovery_method (Some '' '') = ''substructure''
   \<and> lower (strip '' SimiLARity '') = ''similarity''
   \<and> normalize_discovery_method (Some '' SimiLARity '') = ''sim2d''
   \<and> strip '' Sim3D '' \<noteq> [] \<and> lower (strip '' Sim3D '') \<noteq> ''similarity''
   \<and> normalize_discovery_method (Some '' Sim3D '') = ''sim3d''"
  using normalize_discovery_method_cases [of "'' ''" "'' SimiLARity ''" "'' Sim3D ''"]
  by (simp add: str_eval)

section \<open>Verification: the predicate builder\<close>

lemma param_here: "param (pre @ x # post) (Suc (length pre)) = Some x"
  by (simp add: param_def)

lemma param_next: "param (pre @ x # y # post) (Suc (Suc (length pre))) = Some y"
  by (simp add: param_def nth_append)

lemma param_prefix: "i \<le> length pre \<Longrightarrow> param (pre @ ext) i = param pre i"
  by (auto simp: param_def nth_append)

lemma float_param_prefix: "i \<le> length pre \<Longrightarrow> float_param (pre @ ext) i = float_param pre i"
  by (simp add: float_param_def param_prefix)

lemma bound_param_prefix: "i \<le> length pre \<Longrightarrow> bound_param c (pre @ ext) i = bound_param c pre i"
  by (simp add: bound_param_def float_param_prefix)

lemma foldl_sql_and_True:
  "foldl sql_and a xs = Some True \<longleftrightarrow> a = Some True \<and> (\<forall>x\<in>set xs. x = Some True)"
  by (induction xs arbitrary: a) (auto simp: sql_and_def split: if_splits)

lemma eval_where_all:
  "eval_where args conds r = Some True \<longleftrightarrow> (\<forall>c\<in>set conds. eval_cond args c r = Some True)"
  by (simp add: eval_where_def foldl_sql_and_True)

lemma range_test_True:
  "range_test v lo hi = Some True \<longleftrightarrow> (\<exists>x. v = Some x \<and> lo \<le> x \<and> x \<le> hi)"
  by (cases v) (auto simp: range_test_def sql_and_def sql_cmp_def sql_is_not_null_def)

lemma lower_fields:
  "lower ''molecular_weight'' = ''molecular_weight''"
  "lower ''TPSA'' = ''tpsa''"
  "lower ''XLogP3'' = ''xlogp3''"
  "lower ''HBA'' = ''hba''"
  "lower ''HBD'' = ''hbd''"
  "lower ''rotatable_bonds'' = ''rotatable_bonds''"
  "lower ''mmff94_energy'' = ''mmff94_energy''"
  "lower ''shape_volume'' = ''shape_volume''"
  "lower ''tpsa'' = ''tpsa''"
  "lower ''xlogp3'' = ''xlogp3''"
  "lower ''hba'' = ''hba''"
  "lower ''hbd'' = ''hbd''"
  by (simp_all add: str_eval)

lemma num_col_manifest:
  assumes "f \<in> set manifest_fields"
  shows "num_col (MCol f) = Some (field_value f)"
proof -
  have "f = ''molecular_weight'' \<or> f = ''TPSA'' \<or> f = ''XLogP3'' \<or> f = ''HBA''
      \<or> f = ''HBD'' \<or> f = ''rotatable_bonds''"
    using assms by (simp add: manifest_fields_def)
  moreover have "num_col (MCol x) = Some (field_value x)"
    if "x = ''molecular_weight'' \<or> x = ''TPSA'' \<or> x = ''XLogP3'' \<or> x = ''HBA''
      \<or> x = ''HBD'' \<or> x = ''rotatable_bonds''" for x
    using that
    apply (elim disjE)
    apply (simp_all add: num_col_def lower_fields m_num_col_def)
    apply (simp_all add: field_value_def fun_eq_iff)
    done
  ultimately show ?thesis by blast
qed

lemma num_col_geometry:
  assumes "f \<in> set geometry_fields"
  shows "num_col (GCol f) = Some (field_value f)"
proof -
  have "f = ''mmff94_energy'' \<or> f = ''shape_volume''"
    using assms by (simp add: geometry_fields_def)
  moreover have "num_col (GCol x) = Some (field_value x)"
    if "x = ''mmff94_energy'' \<or> x = ''shape_volume''" for x
    using that
    apply (elim disjE)
    apply (simp_all add: num_col_def lower_fields g_num_col_def)
    apply (simp_all add: field_value_def fun_eq_iff)
    done
  ultimately show ?thesis by blast
qed

lemma geometry_not_manifest: "f \<in> set geometry_fields \<Longrightarrow> f \<notin> set manifest_fields"
  by (auto simp: geometry_fields_def manifest_fields_def)

lemma allowed_fields_eq: "set allowed_fields = set (manifest_fields @ geometry_fields)"
  by (simp add: allowed_fields_def manifest_fields_def geometry_fields_def)

lemma eval_cond_prefix:
  "\<forall>i\<in>set (cond_params c). i \<le> length pre \<Longrightarrow> eval_cond (pre @ ext) c r = eval_cond pre c r"
  by (cases c) (simp_all add: eval_cond_def cond_params_def param_prefix bound_param_prefix cong: option.case_cong)

lemma cond_ok_prefix:
  "\<forall>i\<in>set (cond_params c). i \<le> length pre \<Longrightarrow> cond_ok j (pre @ ext) c = cond_ok j pre c"
  by (cases c) (simp_all add: cond_ok_def cond_params_def param_prefix bound_param_prefix cong: option.case_cong)

lemma range_loop_acc:
  "range_loop rs (cs, as, idx) =
     (case range_loop rs ([], [], idx) of (c2, a2, i2) \<Rightarrow> (cs @ c2, as @ a2, i2))"
proof (induction rs arbitrary: cs as idx)
  case Nil
  show ?case by simp
next
  case (Cons e rs)
  obtain f pair where e: "e = (f, pair)" by (cases e)
  show ?case
  proof (cases "length pair \<ge> 2 \<and> f \<in> set (manifest_fields @ geometry_fields)")
    case False
    then show ?thesis using Cons.IH[of cs as idx] by (auto simp: e)
  next
    case True
    let ?c = "if f \<in> set geometry_fields then GeomRange f idx else MolRange f idx"
    let ?a = "[ArgFloat (pair ! 0), ArgFloat (pair ! 1)]"
    obtain c3 a3 i3 where r: "range_loop rs ([], [], idx + 2) = (c3, a3, i3)"
      by (cases "range_loop rs ([], [], idx + 2)")
    have 1: "range_loop rs (cs @ [?c], as @ ?a, idx + 2) = ((cs @ [?c]) @ c3, (as @ ?a) @ a3, i3)"
      using Cons.IH[of "cs @ [?c]" "as @ ?a" "idx + 2"] r by simp
    have 2: "range_loop rs ([] @ [?c], [] @ ?a, idx + 2) = ([?c] @ c3, ?a @ a3, i3)"
      using Cons.IH[of "[?c]" "?a" "idx + 2"] r by simp
    show ?thesis using True 1 2 by (simp add: e)
  qed
qed

lemma sql_and_True: "sql_and a b = Some True \<longleftrightarrow> a = Some True \<and> b = Some True"
  by (auto simp: sql_and_def)

lemma in_range_iff:
  "in_range (f, pair) r \<longleftrightarrow> (\<exists>v. field_value f r = Some v \<and> pair ! 0 \<le> v \<and> v \<le> pair ! 1)"
  by (simp add: in_range_def split: option.splits)

lemma sent_range_iff:
  "sent_range (f, pair) r \<longleftrightarrow>
     (\<exists>v. field_value f r = Some v \<and> sent_bound f (pair ! 0) \<le> v \<and> v \<le> sent_bound f (pair ! 1))"
  by (simp add: sent_range_def split: option.splits)

lemma geometry_value_None:
  "f \<in> set geometry_fields \<Longrightarrow> snd r = None \<Longrightarrow> field_value f r = None"
  by (auto simp: geometry_fields_def field_value_def)

lemma geometry_not_count: "f \<in> set geometry_fields \<Longrightarrow> f \<notin> set count_fields"
  by (auto simp: geometry_fields_def count_fields_def)

lemma col_type_geometry: "f \<in> set geometry_fields \<Longrightarrow> col_type (GCol f) = Float8"
  by (auto simp: geometry_fields_def col_type_def g_col_type_def lower_fields)

lemma col_type_manifest:
  assumes "f \<in> set manifest_fields"
  shows "col_type (MCol f) = (if f \<in> set count_fields then Int4 else Float8)"
proof -
  have "f = ''molecular_weight'' \<or> f = ''TPSA'' \<or> f = ''XLogP3'' \<or> f = ''HBA''
      \<or> f = ''HBD'' \<or> f = ''rotatable_bonds''"
    using assms by (simp add: manifest_fields_def)
  then show ?thesis
    by (elim disjE) (simp_all add: col_type_def m_col_type_def lower_fields count_fields_def)
qed

lemma bound_param_geometry:
  "f \<in> set geometry_fields \<Longrightarrow> bound_param (GCol f) args i = float_param args i"
  by (simp add: bound_param_def col_type_geometry bind_float_def split: option.splits)

lemma bound_param_manifest:
  assumes "f \<in> set manifest_fields" and "float_param args i = Some x"
  shows "bound_param (MCol f) args i =
     (if f \<in> set count_fields \<and> \<not> int4_range (int_of_float x) then None
      else Some (sent_bound f x))"
  using assms by (simp add: bound_param_def col_type_manifest bind_float_def sent_bound_def)

lemma accepted_range_geometry: "f \<in> set geometry_fields \<Longrightarrow> accepted_range (f, pair)"
  by (simp add: accepted_range_def geometry_not_count)

lemma sent_bound_geometry: "f \<in> set geometry_fields \<Longrightarrow> sent_bound f x = x"
  by (simp add: sent_bound_def geometry_not_count)

lemma sent_range_geometry: "f \<in> set geometry_fields \<Longrightarrow> sent_range (f, pair) r = in_range (f, pair) r"
  by (simp add: sent_range_def in_range_def sent_bound_geometry split: option.splits)

lemma eval_geom_range:
  assumes "f \<in> set geometry_fields"
    and "float_param args idx = Some lo" and "float_param args (Suc idx) = Some hi"
  shows "eval_cond args (GeomRange f idx) r = Some True
     \<longleftrightarrow> (\<exists>v. field_value f r = Some v \<and> lo \<le> v \<and> v \<le> hi)"
proof (cases "snd r")
  case None
  then have "field_value f r = None"
    using assms(1) by (rule geometry_value_None[rotated])
  then show ?thesis
    using None assms
    by (simp add: eval_cond_def num_col_geometry bound_param_geometry sql_and_True sql_cmp_def)
next
  case (Some g)
  then show ?thesis
    using assms
    by (simp add: eval_cond_def num_col_geometry bound_param_geometry sql_and_True sql_cmp_def
          range_test_True)
qed

lemma eval_mol_range:
  assumes "f \<in> set manifest_fields"
    and "float_param args idx = Some lo" and "float_param args (Suc idx) = Some hi"
  shows "eval_cond args (MolRange f idx) r = Some True
     \<longleftrightarrow> accepted_range (f, [lo, hi])
         \<and> (\<exists>v. field_value f r = Some v \<and> sent_bound f lo \<le> v \<and> v \<le> sent_bound f hi)"
  using assms
  by (simp add: eval_cond_def num_col_manifest bound_param_manifest range_test_True
        accepted_range_def)

lemma cond_ok_geom_range:
  assumes "f \<in> set geometry_fields"
    and "float_param args idx = Some lo" and "float_param args (Suc idx) = Some hi"
  shows "cond_ok j args (GeomRange f idx) = j"
  using assms by (simp add: cond_ok_def num_col_geometry bound_param_geometry)

lemma cond_ok_mol_range:
  assumes "f \<in> set manifest_fields"
    and "float_param args idx = Some lo" and "float_param args (Suc idx) = Some hi"
  shows "cond_ok j args (MolRange f idx) \<longleftrightarrow> accepted_range (f, [lo, hi])"
  using assms
  by (simp add: cond_ok_def num_col_manifest bound_param_manifest accepted_range_def)

lemma range_loop_sem:
  assumes "range_loop rs ([], [], Suc (length pre)) = (c2, a2, i2)"
  shows "i2 = Suc (length pre) + length a2
     \<and> ((\<forall>c\<in>set c2. eval_cond (pre @ a2 @ post) c r = Some True)
          \<longleftrightarrow> (\<forall>e\<in>set rs. usable_range e \<longrightarrow> accepted_range e \<and> sent_range e r))
     \<and> ((\<forall>c\<in>set c2. cond_ok True (pre @ a2 @ post) c)
          \<longleftrightarrow> (\<forall>e\<in>set rs. usable_range e \<longrightarrow> accepted_range e))
     \<and> set (concat (map cond_params c2)) = {Suc (length pre) ..< i2}"
  using assms
proof (induction rs arbitrary: pre c2 a2 i2)
  case Nil
  then show ?case by simp
next
  case (Cons e rs)
  obtain f pair where e: "e = (f, pair)" by (cases e)
  show ?case
  proof (cases "length pair \<ge> 2 \<and> f \<in> set (manifest_fields @ geometry_fields)")
    case False
    then have nu: "\<not> usable_range e" by (simp add: usable_range_def e allowed_fields_eq)
    from False Cons.prems have "range_loop rs ([], [], Suc (length pre)) = (c2, a2, i2)"
      by (auto simp: e split: if_splits)
    from Cons.IH[OF this] nu show ?thesis by simp
  next
    case True
    then have us: "usable_range e" by (simp add: usable_range_def e allowed_fields_eq)
    let ?idx = "Suc (length pre)"
    let ?c = "if f \<in> set geometry_fields then GeomRange f ?idx else MolRange f ?idx"
    let ?lo = "ArgFloat (pair ! 0)" and ?hi = "ArgFloat (pair ! 1)"
    let ?pre' = "pre @ [?lo, ?hi]"
    obtain c3 a3 i3 where r: "range_loop rs ([], [], Suc (length ?pre')) = (c3, a3, i3)"
      by (cases "range_loop rs ([], [], Suc (length ?pre'))")
    have "range_loop (e # rs) ([], [], ?idx) = range_loop rs ([?c], [?lo, ?hi], ?idx + 2)"
      using True by (simp add: e)
    also have "\<dots> = ([?c] @ c3, [?lo, ?hi] @ a3, i3)"
      using range_loop_acc[of rs "[?c]" "[?lo, ?hi]" "?idx + 2"] r by simp
    finally have out: "c2 = ?c # c3" "a2 = ?lo # ?hi # a3" "i2 = i3"
      using Cons.prems by simp_all
    note ih = Cons.IH[OF r]
    let ?args = "pre @ a2 @ post"
    have args: "?pre' @ a3 @ post = ?args" by (simp add: out)
    have args2: "?args = pre @ ?lo # ?hi # (a3 @ post)" by (simp add: out)
    have p1: "float_param ?args ?idx = Some (pair ! 0)"
      unfolding args2 by (simp add: float_param_def param_here)
    have p2: "float_param ?args (Suc ?idx) = Some (pair ! 1)"
      unfolding args2 by (simp add: float_param_def param_next)
    have fm: "f \<notin> set geometry_fields \<Longrightarrow> f \<in> set manifest_fields"
      using True by simp
    have cv: "eval_cond ?args ?c r = Some True \<longleftrightarrow> accepted_range e \<and> sent_range e r"
    proof (cases "f \<in> set geometry_fields")
      case g: True
      show ?thesis
        using eval_geom_range[OF g p1 p2, of r] g
        by (simp add: e accepted_range_geometry sent_range_geometry in_range_iff)
    next
      case g: False
      show ?thesis
        using eval_mol_range[OF fm[OF g] p1 p2, of r] g
        by (simp add: e accepted_range_def sent_range_iff)
    qed
    have ok: "cond_ok True ?args ?c \<longleftrightarrow> accepted_range e"
    proof (cases "f \<in> set geometry_fields")
      case g: True
      show ?thesis
        using cond_ok_geom_range[OF g p1 p2, of True] g
        by (simp add: e accepted_range_geometry)
    next
      case g: False
      show ?thesis
        using cond_ok_mol_range[OF fm[OF g] p1 p2, of True] g
        by (simp add: e accepted_range_def)
    qed
    have cp: "set (cond_params ?c) = {?idx, Suc ?idx}"
      by (simp add: cond_params_def)
    have i3: "i3 = Suc (Suc ?idx) + length a3" using ih by simp
    have A: "i2 = Suc (length pre) + length a2"
      using i3 by (simp add: out)
    have B: "(\<forall>c\<in>set c2. eval_cond ?args c r = Some True)
          \<longleftrightarrow> (\<forall>e\<in>set (e # rs). usable_range e \<longrightarrow> accepted_range e \<and> sent_range e r)"
    proof -
      have "(\<forall>c\<in>set c3. eval_cond ?args c r = Some True)
          \<longleftrightarrow> (\<forall>e\<in>set rs. usable_range e \<longrightarrow> accepted_range e \<and> sent_range e r)"
        using ih unfolding args by blast
      then show ?thesis
        unfolding out(1) using cv us by simp
    qed
    have C: "(\<forall>c\<in>set c2. cond_ok True ?args c)
          \<longleftrightarrow> (\<forall>e\<in>set (e # rs). usable_range e \<longrightarrow> accepted_range e)"
    proof -
      have "(\<forall>c\<in>set c3. cond_ok True ?args c)
          \<longleftrightarrow> (\<forall>e\<in>set rs. usable_range e \<longrightarrow> accepted_range e)"
        using ih unfolding args by blast
      then show ?thesis unfolding out(1) using ok us by simp
    qed
    have D: "set (concat (map cond_params c2)) = {Suc (length pre) ..< i2}"
    proof -
      have "set (concat (map cond_params c3)) = {Suc (Suc ?idx) ..< i3}"
        using ih by simp
      then have "set (concat (map cond_params c2)) = {?idx, Suc ?idx} \<union> {Suc (Suc ?idx) ..< i3}"
        unfolding out(1) using cp by simp
      also have "\<dots> = {?idx ..< i3}"
        using i3 by auto
      finally show ?thesis by (simp add: out)
    qed
    show ?thesis using A B C D by blast
  qed
qed

lemma where_head_facts:
  "\<exists>cs pre. where_head ds body = (cs, pre, Suc (length pre))
     \<and> (\<forall>c\<in>set cs. \<forall>i\<in>set (cond_params c). i \<le> length pre)
     \<and> set (concat (map cond_params cs)) = {1..length pre}
     \<and> (\<forall>c\<in>set cs. cond_ok j pre c)
     \<and> (\<forall>c\<in>set cs. \<forall>f i. c \<noteq> GeomRange f i)
     \<and> (\<forall>r. (\<forall>c\<in>set cs. eval_cond pre c r = Some True) \<longleftrightarrow> head_spec ds body r)"
proof -
  have s: "{Suc 0..2} = {1, 2}" "{Suc 0..3} = {1, 2, 3}" by auto
  show ?thesis
    by (cases "body_seed_name body"; cases "body_methods body")
       (auto simp: where_head_def eval_cond_def param_def cond_ok_def cond_params_def
                   head_spec_def sql_cmp_def s split: option.splits)
qed

lemma build_where_range_loop:
  "build_where ds body = (case range_loop (the_ranges body) (where_head ds body) of (c, a, i) \<Rightarrow> (c, a))"
  by (auto simp: build_where_def the_ranges_def Let_def split: option.splits)

lemma range_loop_geom:
  "GeomRange g i \<in> set (fst (range_loop rs (cs, as, idx))) \<Longrightarrow>
     GeomRange g i \<in> set cs \<or> (g \<in> set geometry_fields \<and> g \<in> fst ` set rs)"
proof (induction rs arbitrary: cs as idx)
  case Nil
  then show ?case by simp
next
  case (Cons e rs)
  obtain f pair where e: "e = (f, pair)" by (cases e)
  show ?case
  proof (cases "length pair \<ge> 2 \<and> f \<in> set (manifest_fields @ geometry_fields)")
    case False
    then have "GeomRange g i \<in> set (fst (range_loop rs (cs, as, idx)))"
      using Cons.prems by (auto simp: e split: if_splits)
    from Cons.IH[OF this] show ?thesis by auto
  next
    case True
    let ?c = "if f \<in> set geometry_fields then GeomRange f idx else MolRange f idx"
    have "GeomRange g i \<in> set (fst (range_loop rs (cs @ [?c], as @ [ArgFloat (pair ! 0), ArgFloat (pair ! 1)], idx + 2)))"
      using Cons.prems True by (simp add: e)
    from Cons.IH[OF this] have
      "GeomRange g i \<in> set cs \<or> GeomRange g i = ?c \<or> (g \<in> set geometry_fields \<and> g \<in> fst ` set rs)"
      by auto
    then show ?thesis
      unfolding e by (auto split: if_splits)
  qed
qed

lemma build_where_geom:
  assumes "GeomRange g i \<in> set (fst (build_where ds body))"
  shows "g \<in> set geometry_fields \<and> g \<in> fst ` set (the_ranges body)"
proof -
  obtain cs pre where h: "where_head ds body = (cs, pre, Suc (length pre))"
    and ng: "\<forall>c\<in>set cs. \<forall>f i. c \<noteq> GeomRange f i"
    using where_head_facts[of ds body True] by blast
  have "GeomRange g i \<in> set (fst (range_loop (the_ranges body) (cs, pre, Suc (length pre))))"
    using assms by (simp add: build_where_range_loop h split: prod.splits)
  from range_loop_geom[OF this] ng show ?thesis by blast
qed

lemma build_where_use_geom:
  assumes "GeomRange g i \<in> set (fst (build_where ds body))"
  shows "use_geom body"
proof -
  from build_where_geom[OF assms]
  have g: "g \<in> set geometry_fields" and k: "g \<in> fst ` set (the_ranges body)" by auto
  from k obtain rs where rs: "body_ranges body = Some rs" "g \<in> fst ` set rs"
    by (cases "body_ranges body") (auto simp: the_ranges_def)
  then have "rs \<noteq> []" by auto
  moreover have "list_ex (\<lambda>k. k \<in> set geometry_fields) (map fst rs)"
    using rs(2) g by (auto simp: list_ex_iff)
  ultimately show ?thesis by (simp add: use_geom_def rs(1))
qed

lemma cond_ok_weaken:
  "cond_ok True args c \<Longrightarrow> j \<or> (\<forall>f i. c \<noteq> GeomRange f i) \<Longrightarrow> cond_ok j args c"
  by (cases c) (auto simp: cond_ok_def)

lemma build_where_facts:
  assumes bw: "build_where ds body = (conds, args)"
  shows "eval_where (args @ ext) conds r = Some True \<longleftrightarrow> accepted body \<and> db_filter ds body r"
    and "list_all (cond_ok True (args @ ext)) conds \<longleftrightarrow> accepted body"
    and "set (concat (map cond_params conds)) = {1..length args}"
proof -
  obtain cs pre where h: "where_head ds body = (cs, pre, Suc (length pre))"
    and h1: "\<forall>c\<in>set cs. \<forall>i\<in>set (cond_params c). i \<le> length pre"
    and h2: "set (concat (map cond_params cs)) = {1..length pre}"
    and h3: "\<forall>c\<in>set cs. cond_ok True pre c"
    and h4: "\<forall>r. (\<forall>c\<in>set cs. eval_cond pre c r = Some True) \<longleftrightarrow> head_spec ds body r"
    using where_head_facts[of ds body True] by blast
  obtain c2 a2 i2 where r0: "range_loop (the_ranges body) ([], [], Suc (length pre)) = (c2, a2, i2)"
    by (cases "range_loop (the_ranges body) ([], [], Suc (length pre))")
  have "range_loop (the_ranges body) (cs, pre, Suc (length pre)) = (cs @ c2, pre @ a2, i2)"
    using range_loop_acc[of "the_ranges body" cs pre "Suc (length pre)"] r0 by simp
  then have out: "conds = cs @ c2" "args = pre @ a2"
    using bw by (simp_all add: build_where_range_loop h)
  note sem = range_loop_sem[OF r0, of ext r]
  have args: "args @ ext = pre @ a2 @ ext" by (simp add: out)
  have head_eval: "eval_cond (args @ ext) c r = eval_cond pre c r" if "c \<in> set cs" for c
    unfolding args using eval_cond_prefix[of c pre "a2 @ ext" r] h1 that by blast
  have head_ok: "cond_ok True (args @ ext) c" if "c \<in> set cs" for c
    unfolding args using cond_ok_prefix[of c pre True "a2 @ ext"] h1 h3 that by blast
  have "eval_where (args @ ext) conds r = Some True
      \<longleftrightarrow> (\<forall>c\<in>set cs. eval_cond pre c r = Some True)
          \<and> (\<forall>c\<in>set c2. eval_cond (args @ ext) c r = Some True)"
    unfolding eval_where_all out(1) using head_eval by auto
  also have "\<dots> \<longleftrightarrow> head_spec ds body r
          \<and> (\<forall>e\<in>set (the_ranges body). usable_range e \<longrightarrow> accepted_range e \<and> sent_range e r)"
    using h4 sem unfolding args by blast
  also have "\<dots> \<longleftrightarrow> accepted body \<and> db_filter ds body r"
    by (auto simp: db_filter_def accepted_def list_all_iff)
  finally show "eval_where (args @ ext) conds r = Some True
      \<longleftrightarrow> accepted body \<and> db_filter ds body r" .
  have "list_all (cond_ok True (args @ ext)) conds
      \<longleftrightarrow> (\<forall>c\<in>set c2. cond_ok True (args @ ext) c)"
    unfolding list_all_iff out(1) using head_ok by auto
  also have "\<dots> \<longleftrightarrow> (\<forall>e\<in>set (the_ranges body). usable_range e \<longrightarrow> accepted_range e)"
    using sem unfolding args by blast
  also have "\<dots> \<longleftrightarrow> accepted body"
    by (auto simp: accepted_def list_all_iff)
  finally show "list_all (cond_ok True (args @ ext)) conds \<longleftrightarrow> accepted body" .
  have "set (concat (map cond_params conds)) = {1..length pre} \<union> {Suc (length pre)..<i2}"
    unfolding out(1) using h2 sem by simp
  also have "\<dots> = {1..length args}"
    using sem by (auto simp: out)
  finally show "set (concat (map cond_params conds)) = {1..length args}" .
qed






text \<open>
  C6: the geometry-table join flag of \<open>query_molecules\<close> is true exactly when a key of
  \<open>ranges\<close> or the field of a sort key is \<open>mmff94_energy\<close> or \<open>shape_volume\<close>. A range
  on \<open>molecular_weight\<close> with a sort on \<open>shape_volume\<close> sets it; ranges on manifest fields
  only, with no sort or a sort on other fields, leave it false.
\<close>

theorem use_geom_iff:
  "(use_geom body \<longleftrightarrow>
      (\<exists>rs. body_ranges body = Some rs \<and> (\<exists>k\<in>fst ` set rs. k = ''mmff94_energy'' \<or> k = ''shape_volume''))
      \<or> (\<exists>ss. body_sort body = Some ss
            \<and> (\<exists>s\<in>set ss. sort_field s = ''mmff94_energy'' \<or> sort_field s = ''shape_volume'')))
   \<and> use_geom \<lparr>body_seed_name = sn, body_methods = ms,
        body_ranges = Some [(''molecular_weight'', [100, 200])],
        body_sort = Some [\<lparr>sort_field = ''shape_volume'', sort_dir = d\<rparr>], body_page = pg\<rparr>
   \<and> ((\<forall>k\<in>fst ` set rs'. k \<in> set manifest_fields)
        \<and> (\<forall>s\<in>set ss'. sort_field s \<noteq> ''mmff94_energy'' \<and> sort_field s \<noteq> ''shape_volume'')
      \<longrightarrow> \<not> use_geom \<lparr>body_seed_name = sn', body_methods = ms', body_ranges = Some rs',
                body_sort = Some ss', body_page = pg'\<rparr>
        \<and> \<not> use_geom \<lparr>body_seed_name = sn', body_methods = ms', body_ranges = Some rs',
                body_sort = None, body_page = pg'\<rparr>)"
proof (intro conjI impI)
  show "use_geom body \<longleftrightarrow>
      (\<exists>rs. body_ranges body = Some rs \<and> (\<exists>k\<in>fst ` set rs. k = ''mmff94_energy'' \<or> k = ''shape_volume''))
      \<or> (\<exists>ss. body_sort body = Some ss
            \<and> (\<exists>s\<in>set ss. sort_field s = ''mmff94_energy'' \<or> sort_field s = ''shape_volume''))"
    by (cases "body_ranges body"; cases "body_sort body")
       (auto simp: use_geom_def geometry_fields_def list_ex_iff)
  show "use_geom \<lparr>body_seed_name = sn, body_methods = ms,
        body_ranges = Some [(''molecular_weight'', [100, 200])],
        body_sort = Some [\<lparr>sort_field = ''shape_volume'', sort_dir = d\<rparr>], body_page = pg\<rparr>"
    by (simp add: use_geom_def geometry_fields_def)
next
  assume a: "(\<forall>k\<in>fst ` set rs'. k \<in> set manifest_fields)
        \<and> (\<forall>s\<in>set ss'. sort_field s \<noteq> ''mmff94_energy'' \<and> sort_field s \<noteq> ''shape_volume'')"
  then have "\<forall>k\<in>fst ` set rs'. k \<notin> set geometry_fields"
    using geometry_not_manifest by blast
  then show "\<not> use_geom \<lparr>body_seed_name = sn', body_methods = ms', body_ranges = Some rs',
                body_sort = Some ss', body_page = pg'\<rparr>"
      and "\<not> use_geom \<lparr>body_seed_name = sn', body_methods = ms', body_ranges = Some rs',
                body_sort = None, body_page = pg'\<rparr>"
    using a by (auto simp: use_geom_def list_ex_iff geometry_fields_def)
qed

theorem use_geom_iff_witness:
  "use_geom \<lparr>body_seed_name = None, body_methods = None,
        body_ranges = Some [(''shape_volume'', [1])], body_sort = None, body_page = None\<rparr>
   \<and> ''molecular_weight'' \<in> set manifest_fields
   \<and> ''TPSA'' \<noteq> ''mmff94_energy'' \<and> ''TPSA'' \<noteq> ''shape_volume''
   \<and> \<not> use_geom \<lparr>body_seed_name = None, body_methods = None,
          body_ranges = Some [(''molecular_weight'', [100, 200])],
          body_sort = Some [\<lparr>sort_field = ''TPSA'', sort_dir = ''desc''\<rparr>], body_page = None\<rparr>
   \<and> \<not> use_geom \<lparr>body_seed_name = None, body_methods = None,
          body_ranges = Some [(''molecular_weight'', [100, 200])],
          body_sort = None, body_page = None\<rparr>"
  using use_geom_iff [of "\<lparr>body_seed_name = None, body_methods = None,
        body_ranges = Some [(''shape_volume'', [1])], body_sort = None, body_page = None\<rparr>"
      None None "''asc''" None "[(''molecular_weight'', [100, 200])]"
      "[\<lparr>sort_field = ''TPSA'', sort_dir = ''desc''\<rparr>]" None None None]
  by (simp add: manifest_fields_def)

section \<open>Verification: range filters\<close>







section \<open>Verification: the statements of the executors\<close>

lemma cond_ok_joined:
  "j \<or> (\<forall>f i. c \<noteq> GeomRange f i) \<Longrightarrow> cond_ok j args c = cond_ok True args c"
  by (cases c) (auto simp: cond_ok_def)

lemma stmt_ok_build:
  assumes bw: "build_where ds body = (conds, args)"
  shows "stmt_ok True conds [] args \<longleftrightarrow> accepted body"
    and "stmt_ok (use_geom body) conds [] args \<longleftrightarrow> accepted body"
    and "stmt_ok (use_geom body) conds [length args + 1, length args + 2] (args @ [a, b])
           \<longleftrightarrow> accepted body"
proof -
  have ok: "list_all (cond_ok True (args @ ext)) conds \<longleftrightarrow> accepted body" for ext
    by (rule build_where_facts(2)[OF bw])
  have j: "cond_ok (use_geom body) (args @ ext) c = cond_ok True (args @ ext) c"
    if c: "c \<in> set conds" for c ext
  proof (rule cond_ok_joined)
    show "use_geom body \<or> (\<forall>f i. c \<noteq> GeomRange f i)"
      using build_where_use_geom[of _ _ ds body] c bw by fastforce
  qed
  have okj: "list_all (cond_ok (use_geom body) (args @ ext)) conds \<longleftrightarrow> accepted body" for ext
    using ok[of ext] j by (simp add: list_all_iff)
  have ps: "set (concat (map cond_params conds)) = {1..length args}"
    by (rule build_where_facts(3)[OF bw])
  show "stmt_ok True conds [] args \<longleftrightarrow> accepted body"
    using ok[of "[]"] ps by (simp add: stmt_ok_def)
  show "stmt_ok (use_geom body) conds [] args \<longleftrightarrow> accepted body"
    using okj[of "[]"] ps by (simp add: stmt_ok_def)
  have "{1..length args} \<union> {Suc (length args), Suc (Suc (length args))} = {1..Suc (Suc (length args))}"
    by auto
  then show "stmt_ok (use_geom body) conds [length args + 1, length args + 2] (args @ [a, b])
      \<longleftrightarrow> accepted body"
    using okj[of "[a, b]"] ps by (simp add: stmt_ok_def Un_commute)
qed

lemma where_rows_build:
  assumes bw: "build_where ds body = (conds, args)"
  shows "where_rows db True conds [] args
           = (if accepted body then Inr (filter (db_filter ds body) (from_rows db True))
              else Inl SqlError)"
    and "where_rows db (use_geom body) conds [] args
           = (if accepted body
              then Inr (filter (db_filter ds body) (from_rows db (use_geom body)))
              else Inl SqlError)"
    and "where_rows db (use_geom body) conds [length args + 1, length args + 2] (args @ [a, b])
           = (if accepted body
              then Inr (filter (db_filter ds body) (from_rows db (use_geom body)))
              else Inl SqlError)"
proof -
  have e0: "(\<lambda>r. eval_where args conds r = Some True) = db_filter ds body" if "accepted body"
    using build_where_facts(1)[OF bw, where ext = "[]"] that by (simp add: fun_eq_iff)
  have e2: "(\<lambda>r. eval_where (args @ [a, b]) conds r = Some True) = db_filter ds body"
    if "accepted body"
    using build_where_facts(1)[OF bw, where ext = "[a, b]"] that by (simp add: fun_eq_iff)
  show "where_rows db True conds [] args
           = (if accepted body then Inr (filter (db_filter ds body) (from_rows db True))
              else Inl SqlError)"
    using stmt_ok_build(1)[OF bw] e0 by (simp add: where_rows_def)
  show "where_rows db (use_geom body) conds [] args
           = (if accepted body
              then Inr (filter (db_filter ds body) (from_rows db (use_geom body)))
              else Inl SqlError)"
    using stmt_ok_build(2)[OF bw] e0 by (simp add: where_rows_def)
  show "where_rows db (use_geom body) conds [length args + 1, length args + 2] (args @ [a, b])
           = (if accepted body
              then Inr (filter (db_filter ds body) (from_rows db (use_geom body)))
              else Inl SqlError)"
    using stmt_ok_build(3)[OF bw, of a b] e2 by (simp add: where_rows_def)
qed

lemma query_molecules_eq:
  "query_molecules ob db ds body =
     (let page = (case body_page body of Some p \<Rightarrow> p | None \<Rightarrow> default_Page);
          M = filter (db_filter ds body) (from_rows db (use_geom body))
      in if \<not> accepted body then Inl SqlError
         else case ob (order_clause body) of
           None \<Rightarrow> Inl SqlError
         | Some ord \<Rightarrow>
             if page_limit page < 0 \<or> page_offset page < 0
                \<or> \<not> int8_range (page_limit page) \<or> \<not> int8_range (page_offset page)
             then Inl SqlError
             else Inr \<lparr>res_molecules =
                          map fst (take (nat (page_limit page)) (drop (nat (page_offset page))
                            (ord (page_limit page) (page_offset page) M))),
                        res_total = length M,
                        res_limit = page_limit page, res_offset = page_offset page\<rparr>)"
proof -
  obtain conds args where bw: "build_where ds body = (conds, args)"
    by (cases "build_where ds body")
  define page where "page = (case body_page body of Some p \<Rightarrow> p | None \<Rightarrow> default_Page)"
  let ?l = "ArgInt (page_limit page)" and ?o = "ArgInt (page_offset page)"
  have p1: "param (args @ [?l, ?o]) (Suc (length args)) = Some ?l"
    using param_here[of args ?l "[?o]"] by simp
  have p2: "param (args @ [?l, ?o]) (Suc (Suc (length args))) = Some ?o"
    using param_next[of args ?l ?o "[]"] by simp
  have w2: "where_rows db (use_geom body) conds [Suc (length args), Suc (Suc (length args))]
              (args @ [?l, ?o])
            = (if accepted body
               then Inr (filter (db_filter ds body) (from_rows db (use_geom body)))
               else Inl SqlError)"
    using where_rows_build(3)[OF bw, of db ?l ?o] by simp
  show ?thesis
    unfolding query_molecules_def page_def[symmetric] Let_def bw prod.case
    by (simp add: fetch_page_def fetch_count_def where_rows_build(2)[OF bw] w2 p1 p2
             split: option.splits)
qed

section \<open>Verification: ranges on geometry fields\<close>

lemma range_loop_emits:
  assumes "(f, pair) \<in> set rs" and "length pair \<ge> 2" and "f \<in> set geometry_fields"
  shows "\<exists>i c2 a2 i2. range_loop rs ([], [], Suc (length pre)) = (c2, a2, i2)
           \<and> GeomRange f i \<in> set c2
           \<and> float_param (pre @ a2 @ ext) i = Some (pair ! 0)
           \<and> float_param (pre @ a2 @ ext) (Suc i) = Some (pair ! 1)"
  using assms(1)
proof (induction rs arbitrary: pre)
  case Nil
  then show ?case by simp
next
  case (Cons e rs)
  obtain f' pair' where e: "e = (f', pair')" by (cases e)
  let ?idx = "Suc (length pre)"
  show ?case
  proof (cases "length pair' \<ge> 2 \<and> f' \<in> set (manifest_fields @ geometry_fields)")
    case False
    then have "(f, pair) \<noteq> e"
      using assms(2,3) by (auto simp: e)
    then have "(f, pair) \<in> set rs" using Cons.prems by simp
    from Cons.IH[OF this, of pre] False show ?thesis
      by (auto simp: e)
  next
    case True
    let ?c = "if f' \<in> set geometry_fields then GeomRange f' ?idx else MolRange f' ?idx"
    let ?lo = "ArgFloat (pair' ! 0)" and ?hi = "ArgFloat (pair' ! 1)"
    let ?pre' = "pre @ [?lo, ?hi]"
    obtain c3 a3 i3 where r: "range_loop rs ([], [], Suc (length ?pre')) = (c3, a3, i3)"
      by (cases "range_loop rs ([], [], Suc (length ?pre'))")
    have "range_loop (e # rs) ([], [], ?idx) = range_loop rs ([?c], [?lo, ?hi], ?idx + 2)"
      using True by (simp add: e)
    also have "\<dots> = (?c # c3, ?lo # ?hi # a3, i3)"
      using range_loop_acc[of rs "[?c]" "[?lo, ?hi]" "?idx + 2"] r by simp
    finally have out: "range_loop (e # rs) ([], [], ?idx) = (?c # c3, ?lo # ?hi # a3, i3)" .
    have args: "pre @ (?lo # ?hi # a3) @ ext = ?pre' @ a3 @ ext" by simp
    show ?thesis
    proof (cases "(f, pair) = e")
      case same: True
      then have fe: "f' = f" "pair' = pair" by (simp_all add: e)
      have "GeomRange f ?idx \<in> set (?c # c3)"
        using assms(3) by (simp add: fe)
      moreover have "float_param (pre @ (?lo # ?hi # a3) @ ext) ?idx = Some (pair ! 0)"
        by (simp add: float_param_def param_here fe)
      moreover have "float_param (pre @ (?lo # ?hi # a3) @ ext) (Suc ?idx) = Some (pair ! 1)"
        by (simp add: float_param_def param_next fe)
      ultimately show ?thesis using out by blast
    next
      case False
      then have "(f, pair) \<in> set rs" using Cons.prems by simp
      from Cons.IH[OF this, of ?pre'] r obtain i where
        i: "GeomRange f i \<in> set c3"
           "float_param (?pre' @ a3 @ ext) i = Some (pair ! 0)"
           "float_param (?pre' @ a3 @ ext) (Suc i) = Some (pair ! 1)"
        by auto
      have "GeomRange f i \<in> set (?c # c3)" using i(1) by simp
      moreover have "float_param (pre @ (?lo # ?hi # a3) @ ext) i = Some (pair ! 0)"
        "float_param (pre @ (?lo # ?hi # a3) @ ext) (Suc i) = Some (pair ! 1)"
        using i(2,3) by simp_all
      ultimately show ?thesis using out by blast
    qed
  qed
qed

lemma build_where_emits:
  assumes "body_ranges body = Some rs" and "(f, pair) \<in> set rs"
    and "length pair \<ge> 2" and "f \<in> set geometry_fields"
  shows "\<exists>i. GeomRange f i \<in> set (fst (build_where ds body))
           \<and> float_param (snd (build_where ds body)) i = Some (pair ! 0)
           \<and> float_param (snd (build_where ds body)) (Suc i) = Some (pair ! 1)"
proof -
  obtain cs pre where h: "where_head ds body = (cs, pre, Suc (length pre))"
    using where_head_facts[of ds body True] by blast
  have tr: "(f, pair) \<in> set (the_ranges body)"
    using assms(1,2) by (simp add: the_ranges_def)
  from range_loop_emits[OF tr assms(3,4), of pre "[]"] obtain i c2 a2 i2 where
    r: "range_loop (the_ranges body) ([], [], Suc (length pre)) = (c2, a2, i2)"
    and i: "GeomRange f i \<in> set c2" "float_param (pre @ a2) i = Some (pair ! 0)"
      "float_param (pre @ a2) (Suc i) = Some (pair ! 1)"
    by auto
  have "range_loop (the_ranges body) (cs, pre, Suc (length pre)) = (cs @ c2, pre @ a2, i2)"
    using range_loop_acc[of "the_ranges body" cs pre "Suc (length pre)"] r by simp
  then have "build_where ds body = (cs @ c2, pre @ a2)"
    by (simp add: build_where_range_loop h)
  then show ?thesis using i by auto
qed

lemma reorders_set: "reorders ob \<Longrightarrow> ob t = Some ord \<Longrightarrow> set (ord l off rows) = set rows"
  unfolding reorders_def by (metis set_mset_mset)

lemma query_molecules_rows:
  assumes "reorders ob" and "query_molecules ob db ds body = Inr res"
    and "m \<in> set (res_molecules res)"
  shows "\<exists>g. (m, g) \<in> set (from_rows db (use_geom body)) \<and> db_filter ds body (m, g)"
proof -
  let ?M = "filter (db_filter ds body) (from_rows db (use_geom body))"
  define page where "page = (case body_page body of Some p \<Rightarrow> p | None \<Rightarrow> default_Page)"
  from assms(2) obtain ord where o: "ob (order_clause body) = Some ord"
    by (auto simp: query_molecules_eq Let_def split: option.splits if_splits)
  have "res_molecules res
      = map fst (take (nat (page_limit page)) (drop (nat (page_offset page))
          (ord (page_limit page) (page_offset page) ?M)))"
    using assms(2) o
    by (auto simp: query_molecules_eq Let_def page_def split: if_splits)
  then have "m \<in> fst ` set (ord (page_limit page) (page_offset page) ?M)"
    using assms(3) by (auto dest: in_set_takeD in_set_dropD)
  then have "m \<in> fst ` set ?M"
    using reorders_set[OF assms(1) o] by simp
  then show ?thesis by auto
qed

text \<open>
  C10: when the request has a range entry with two bounds on \<open>mmff94_energy\<close> or
  \<open>shape_volume\<close>, the builder emits for it the conjunct \<open>g.cid = m.cid AND g.f IS NOT NULL
  AND g.f >= $i AND g.f <= $(i+1)\<close> with the two bounds bound to the two placeholders, and
  every molecule that \<open>query_molecules\<close> returns has a row in \<open>molecule_geometry\<close> whose
  value of the field is not null and lies between the bounds, both ends included: the left
  join keeps no molecule without such a row.
\<close>

theorem geometry_range_needs_geometry_row:
  assumes "reorders ob"
    and "query_molecules ob db ds body = Inr res"
    and "body_ranges body = Some rs" and "(f, pair) \<in> set rs"
    and "f \<in> set geometry_fields" and "length pair \<ge> 2"
  shows "(\<exists>i. GeomRange f i \<in> set (fst (build_where ds body))
            \<and> float_param (snd (build_where ds body)) i = Some (pair ! 0)
            \<and> float_param (snd (build_where ds body)) (i + 1) = Some (pair ! 1)
            \<and> render_cond (GeomRange f i)
                = ''g.cid = m.cid AND g.'' @ f @ '' IS NOT NULL AND g.'' @ f @ '' >= $'' @ str_nat i
                    @ '' AND g.'' @ f @ '' <= $'' @ str_nat (i + 1))
     \<and> (\<forall>m\<in>set (res_molecules res).
          \<exists>g v. molecule_geometry db (m_dataset_id m, m_cid m) = Some g
            \<and> field_value f (m, Some g) = Some v \<and> pair ! 0 \<le> v \<and> v \<le> pair ! 1)"
proof (intro conjI ballI)
  from build_where_emits[OF assms(3,4,6,5), of ds]
  show "\<exists>i. GeomRange f i \<in> set (fst (build_where ds body))
            \<and> float_param (snd (build_where ds body)) i = Some (pair ! 0)
            \<and> float_param (snd (build_where ds body)) (i + 1) = Some (pair ! 1)
            \<and> render_cond (GeomRange f i)
                = ''g.cid = m.cid AND g.'' @ f @ '' IS NOT NULL AND g.'' @ f @ '' >= $'' @ str_nat i
                    @ '' AND g.'' @ f @ '' <= $'' @ str_nat (i + 1)"
    by (auto simp: render_cond_def)
next
  fix m assume m: "m \<in> set (res_molecules res)"
  from query_molecules_rows[OF assms(1,2) m] obtain g where
    g: "(m, g) \<in> set (from_rows db (use_geom body))" and fs: "db_filter ds body (m, g)"
    by blast
  have us: "usable_range (f, pair)"
    using assms(5,6) by (simp add: usable_range_def allowed_fields_eq)
  have "(f, pair) \<in> set (the_ranges body)"
    using assms(3,4) by (simp add: the_ranges_def)
  then have "sent_range (f, pair) (m, g)"
    using fs us by (auto simp: db_filter_def list_all_iff)
  then have "in_range (f, pair) (m, g)"
    using assms(5) by (simp add: sent_range_geometry)
  then obtain v where v: "field_value f (m, g) = Some v" "pair ! 0 \<le> v" "v \<le> pair ! 1"
    unfolding in_range_iff by blast
  then obtain gr where gr: "g = Some gr"
    using geometry_value_None[OF assms(5), of "(m, g)"] by (cases g) auto
  have "g = None \<or> g = molecule_geometry db (m_dataset_id m, m_cid m)"
    using g by (auto simp: from_rows_def)
  then have "molecule_geometry db (m_dataset_id m, m_cid m) = Some gr"
    using gr by simp
  then show "\<exists>g v. molecule_geometry db (m_dataset_id m, m_cid m) = Some g
            \<and> field_value f (m, Some g) = Some v \<and> pair ! 0 \<le> v \<and> v \<le> pair ! 1"
    using v gr by blast
qed

lemmas spec_eval =
  filter_spec_def head_spec_def the_ranges_def usable_range_def allowed_fields_def in_range_def
  field_value_def from_rows_def use_geom_def geometry_fields_def order_clause_def
  example_body_def example_db_def example_molecule_def example_geometry_def default_Page_def
  db_filter_def accepted_def accepted_range_def sent_range_def sent_bound_def count_fields_def
  int4_range_def int8_range_def int_of_float_def table_order_def

theorem geometry_range_needs_geometry_row_witness:
  "reorders table_order
   \<and> query_molecules table_order example_db ''ds''
        (example_body [(''shape_volume'', [0, 10])] None)
       = Inr \<lparr>res_molecules = [example_molecule 1 (Some 150)], res_total = 1,
               res_limit = 100, res_offset = 0\<rparr>
   \<and> (\<exists>g v. molecule_geometry example_db (''ds'', 1) = Some g
         \<and> field_value ''shape_volume'' (example_molecule 1 (Some 150), Some g) = Some v
         \<and> 0 \<le> v \<and> v \<le> 10)"
proof -
  have r: "reorders table_order"
    by (simp add: reorders_def table_order_def)
  have q: "query_molecules table_order example_db ''ds''
        (example_body [(''shape_volume'', [0, 10])] None)
       = Inr \<lparr>res_molecules = [example_molecule 1 (Some 150)], res_total = 1,
               res_limit = 100, res_offset = 0\<rparr>"
    by (simp add: query_molecules_eq spec_eval)
  have b: "body_ranges (example_body [(''shape_volume'', [0, 10])] None)
             = Some [(''shape_volume'', [0, 10])]"
    by (simp add: example_body_def)
  from geometry_range_needs_geometry_row[OF r q b, of "''shape_volume''" "[0, 10]"]
  show ?thesis using r q by (simp add: geometry_fields_def example_molecule_def)
qed

section \<open>Verification: pages and total\<close>

lemma concat_pages:
  "concat (map (\<lambda>k. take l (drop (k * l) xs)) [0..<n]) = take (n * l) xs"
proof (induction n)
  case 0
  show ?case by simp
next
  case (Suc n)
  have "take (Suc n * l) xs = take (n * l) xs @ take l (drop (n * l) xs)"
    using take_add[of "n * l" l xs] by (simp add: add.commute)
  then show ?case using Suc by simp
qed

lemma sum_pages: "(\<Sum>k<n. min l (m - k * l)) = min m (n * l)" for l m :: nat
proof (induction n)
  case 0
  show ?case by simp
next
  case (Suc n)
  show ?case
  proof (cases "m \<le> n * l")
    case True
    then show ?thesis using Suc by simp
  next
    case False
    have "(\<Sum>k<Suc n. min l (m - k * l)) = n * l + min l (m - n * l)"
      using Suc False by simp
    also have "\<dots> = min m (Suc n * l)"
      using False by (simp add: min_def) arith
    finally show ?thesis .
  qed
qed

lemma where_eval_db:
  assumes "accepted body"
  shows "(\<lambda>r. eval_where (snd (build_where ds body)) (fst (build_where ds body)) r = Some True)
     = db_filter ds body"
  using build_where_facts(1)[of ds body "fst (build_where ds body)" "snd (build_where ds body)" "[]"]
    assms
  by (simp add: fun_eq_iff)

lemma page_independent:
  "db_filter ds (body\<lparr>body_page := p\<rparr>) = db_filter ds body"
  "accepted (body\<lparr>body_page := p\<rparr>) = accepted body"
  "use_geom (body\<lparr>body_page := p\<rparr>) = use_geom body"
  "order_clause (body\<lparr>body_page := p\<rparr>) = order_clause body"
  by (simp_all add: db_filter_def accepted_def head_spec_def the_ranges_def use_geom_def
        order_clause_def fun_eq_iff)

lemma nth_page_eq:
  assumes "0 \<le> L"
  shows "nth_page ob db ds body L k =
     (if \<not> accepted body then Inl SqlError
      else case ob (order_clause body) of
        None \<Rightarrow> Inl SqlError
      | Some ord \<Rightarrow>
          if \<not> int8_range L \<or> \<not> int8_range (int k * L) then Inl SqlError
          else Inr \<lparr>res_molecules =
                       map fst (take (nat L) (drop (k * nat L)
                         (ord L (int k * L)
                            (filter (db_filter ds body) (from_rows db (use_geom body)))))),
                     res_total = length (filter (db_filter ds body) (from_rows db (use_geom body))),
                     res_limit = L, res_offset = int k * L\<rparr>)"
proof -
  have "nat (int k * L) = k * nat L"
    using assms by (simp add: nat_mult_distrib)
  moreover have "(int k * L < 0) = False"
    using assms by (simp add: mult_nonneg_nonneg not_less)
  moreover have "(L < 0) = False"
    using assms by simp
  ultimately show ?thesis
    by (simp add: nth_page_def query_molecules_eq page_independent Let_def
             split: option.splits)
qed

lemma matching_cids_distinct:
  assumes "primary_key db"
  shows "distinct (map (\<lambda>r. m_cid (fst r)) (filter (db_filter ds body) (from_rows db j)))"
proof -
  let ?f = "\<lambda>m. (m, if j then molecule_geometry db (m_dataset_id m, m_cid m) else None)"
  let ?Q = "\<lambda>m. db_filter ds body (?f m)"
  let ?ms = "filter ?Q (discovered_molecule db)"
  have eq: "map (\<lambda>r. m_cid (fst r)) (filter (db_filter ds body) (from_rows db j)) = map m_cid ?ms"
    by (simp add: from_rows_def filter_map comp_def)
  have d: "distinct (discovered_molecule db)"
    and i: "inj_on (\<lambda>m. (m_dataset_id m, m_cid m)) (set (discovered_molecule db))"
    using assms by (simp_all add: primary_key_def distinct_map)
  have ds: "m_dataset_id m = ds" if "m \<in> set ?ms" for m
    using that by (auto simp: db_filter_def head_spec_def)
  have "inj_on m_cid (set ?ms)"
  proof (rule inj_onI)
    fix a b assume a: "a \<in> set ?ms" and b: "b \<in> set ?ms" and c: "m_cid a = m_cid b"
    have "(m_dataset_id a, m_cid a) = (m_dataset_id b, m_cid b)"
      using ds[OF a] ds[OF b] c by simp
    moreover have "a \<in> set (discovered_molecule db)" "b \<in> set (discovered_molecule db)"
      using a b by simp_all
    ultimately show "a = b" using i by (auto dest: inj_onD)
  qed
  then have "distinct (map m_cid ?ms)"
    using d by (simp add: distinct_map)
  then show ?thesis unfolding eq .
qed

lemma sorted_unique:
  fixes f :: "'a \<Rightarrow> int"
  assumes "mset xs = mset ys" and "sorted (map f xs)" and "sorted (map f ys)"
    and "distinct (map f xs)"
  shows "xs = ys"
proof -
  have m: "mset (map f xs) = mset (map f ys)"
    using assms(1) by (metis mset_map)
  then have dy: "distinct (map f ys)"
    using assms(4) by (metis mset_eq_imp_distinct_iff)
  have "set (map f xs) = set (map f ys)"
    using m by (metis set_mset_mset)
  then have eq: "map f xs = map f ys"
    using sorted_distinct_set_unique[OF assms(2,4) assms(3) dy] by simp
  have s: "set xs = set ys"
    using assms(1) by (metis set_mset_mset)
  have "inj_on f (set xs \<union> set ys)"
    using assms(4) s by (simp add: distinct_map)
  then show ?thesis
    using eq by (rule map_inj_on[rotated])
qed

lemma default_order:
  "body_sort body = None \<or> body_sort body = Some [] \<Longrightarrow> order_clause body = ''m.cid ASC''"
  by (auto simp: order_clause_def)

lemma cid_order_unique:
  assumes "reorders ob" and "orders_by_cid ob" and "primary_key db"
    and "ob ''m.cid ASC'' = Some ord"
    and "M = filter (db_filter ds body) (from_rows db j)"
  shows "ord l off M = ord l' off' M"
proof (rule sorted_unique[where f = "\<lambda>r. m_cid (fst r)"])
  have a: "mset (ord l off M) = mset M" and b: "mset (ord l' off' M) = mset M"
    using assms(1,4) by (simp_all add: reorders_def)
  show "mset (ord l off M) = mset (ord l' off' M)"
    using a b by simp
  show "sorted (map (\<lambda>r. m_cid (fst r)) (ord l off M))"
    and "sorted (map (\<lambda>r. m_cid (fst r)) (ord l' off' M))"
    using assms(2,4) by (simp_all add: orders_by_cid_def)
  have "mset (map (\<lambda>r. m_cid (fst r)) (ord l off M)) = mset (map (\<lambda>r. m_cid (fst r)) M)"
    using a by (metis mset_map)
  moreover have "distinct (map (\<lambda>r. m_cid (fst r)) M)"
    unfolding assms(5) by (rule matching_cids_distinct[OF assms(3)])
  ultimately show "distinct (map (\<lambda>r. m_cid (fst r)) (ord l off M))"
    by (metis mset_eq_imp_distinct_iff)
qed

lemmas page_eval =
  nth_page_eq page_molecules_def spec_eval by_weight_def tie_db_def tie_order_def
  cid_order_def

lemma example_matching_rows:
  "filter (\<lambda>r. eval_where (snd (build_where ''ds'' (example_body [] None)))
                      (fst (build_where ''ds'' (example_body [] None))) r = Some True)
      (from_rows example_db (use_geom (example_body [] None)))
   = [(example_molecule 1 (Some 150), None), (example_molecule 2 (Some 100), None),
      (example_molecule 3 (Some 200), None), (example_molecule 4 None, None)]"
proof -
  have "accepted (example_body [] None)"
    by (simp add: accepted_def the_ranges_def example_body_def)
  from where_eval_db[OF this, of "''ds''"] show ?thesis
    by (simp add: spec_eval)
qed


text \<open>
  C8, as the claim states it: paging through all offsets counts no row twice and drops
  none. \<open>query_molecules\<close> adds no tie-breaker to the sort keys of the request, and rows
  of equal sort key have no fixed order from one statement to the next. Two molecules of
  one weight, sorted by weight, page size 1: an engine that only reorders, and answers
  the statement at offset 0 in one order of the two and the statement at offset 1 in the
  other, gives molecule 1 on both pages and molecule 2 on none, while the total is 2.
\<close>

theorem paging_ties_counterexample:
  "reorders tie_order
   \<and> primary_key tie_db
   \<and> order_clause by_weight = ''m.molecular_weight ASC''
   \<and> map (\<lambda>r. m_molecular_weight (fst r)) (from_rows tie_db (use_geom by_weight))
       = [Some 100, Some 100]
   \<and> nth_page tie_order tie_db ''ds'' by_weight 1 0
       = Inr \<lparr>res_molecules = [example_molecule 1 (Some 100)], res_total = 2,
               res_limit = 1, res_offset = 0\<rparr>
   \<and> nth_page tie_order tie_db ''ds'' by_weight 1 1
       = Inr \<lparr>res_molecules = [example_molecule 1 (Some 100)], res_total = 2,
               res_limit = 1, res_offset = 1\<rparr>
   \<and> example_molecule 2 (Some 100) \<noteq> example_molecule 1 (Some 100)"
proof -
  have "reorders tie_order"
    by (simp add: reorders_def tie_order_def)
  moreover have "primary_key tie_db"
    by (simp add: primary_key_def tie_db_def example_molecule_def)
  moreover have "order_clause by_weight = ''m.molecular_weight ASC''"
    by (simp add: order_clause_def by_weight_def geometry_fields_def)
  moreover have "map (\<lambda>r. m_molecular_weight (fst r)) (from_rows tie_db (use_geom by_weight))
       = [Some 100, Some 100]"
    by (simp add: from_rows_def tie_db_def example_molecule_def)
  moreover have "nth_page tie_order tie_db ''ds'' by_weight 1 0
       = Inr \<lparr>res_molecules = [example_molecule 1 (Some 100)], res_total = 2,
               res_limit = 1, res_offset = 0\<rparr>"
    by (simp add: page_eval)
  moreover have "nth_page tie_order tie_db ''ds'' by_weight 1 1
       = Inr \<lparr>res_molecules = [example_molecule 1 (Some 100)], res_total = 2,
               res_limit = 1, res_offset = 1\<rparr>"
    by (simp add: page_eval)
  moreover have "example_molecule 2 (Some 100) \<noteq> example_molecule 1 (Some 100)"
    by (simp add: example_molecule_def)
  ultimately show ?thesis by blast
qed

text \<open>
  C8, amended: let \<open>M\<close> be the rows of the \<open>FROM\<close> clause of \<open>query_molecules\<close> on which
  the conditions of \<open>_build_where\<close>, with its arguments, are true. For a page size
  \<open>L > 0\<close>, an engine whose \<open>ORDER BY\<close> only reorders rows, and a request whose first page
  is returned: the total is the length of \<open>M\<close>, computed from the same conditions and
  arguments as the page; every page \<open>k\<close> whose offset fits the type of the placeholder is
  returned, is the slice \<open>[k * L, k * L + L)\<close> of an ordering of the same \<open>M\<close>, and
  carries the same total; and over enough pages to reach the total, the page sizes add up
  to the total. The pages together hold the molecules of \<open>M\<close>, each as often as \<open>M\<close>
  does, when the engine goes through \<open>M\<close> in the same order in every page statement. It
  does so for a request without sort keys, whose order is \<open>m.cid ASC\<close>, when the
  identifiers ascend in every answer to that order and the primary key holds.
\<close>

theorem paging_covers_total:
  assumes "reorders ob" and "0 < L"
    and "nth_page ob db ds body L 0 = Inr res0"
    and "M = filter (\<lambda>r. eval_where (snd (build_where ds body)) (fst (build_where ds body)) r = Some True)
               (from_rows db (use_geom body))"
  shows "res_total res0 = length M
     \<and> (\<exists>ord. ob (order_clause body) = Some ord
          \<and> (\<forall>k. int8_range (int k * L) \<longrightarrow>
                (\<exists>res. nth_page ob db ds body L k = Inr res
                   \<and> res_molecules res
                       = map fst (take (nat L) (drop (k * nat L) (ord L (int k * L) M)))
                   \<and> res_total res = res_total res0
                   \<and> length (res_molecules res) = min (nat L) (length M - k * nat L)))
          \<and> (res_total res0 \<le> n * nat L \<and> int8_range (int n * L) \<longrightarrow>
                (\<Sum>k<n. length (page_molecules ob db ds body L k)) = res_total res0
                \<and> ((\<forall>k<n. ord L (int k * L) M = ord L 0 M) \<longrightarrow>
                      mset (concat (map (page_molecules ob db ds body L) [0..<n]))
                        = mset (map fst M)))
          \<and> ((body_sort body = None \<or> body_sort body = Some [])
                \<and> orders_by_cid ob \<and> primary_key db \<longrightarrow>
                order_clause body = ''m.cid ASC'' \<and> (\<forall>l off. ord l off M = ord L 0 M)))"
proof -
  have L0: "0 \<le> L" using assms(2) by simp
  note pg = nth_page_eq[OF L0, of ob db ds body]
  have acc: "accepted body"
    using assms(3) unfolding pg by (auto split: if_splits)
  have M: "M = filter (db_filter ds body) (from_rows db (use_geom body))"
    unfolding assms(4) where_eval_db[OF acc] ..
  from assms(3) obtain ord where o: "ob (order_clause body) = Some ord"
    unfolding pg by (auto split: option.splits if_splits)
  have L8: "int8_range L"
    using assms(3) unfolding pg o by (auto split: if_splits)
  have t0: "res_total res0 = length M"
    using assms(3) unfolding pg o M by (auto split: if_splits)
  have len: "length (ord l off M) = length M" for l off
    using assms(1) o unfolding reorders_def by (metis size_mset)
  have pk: "nth_page ob db ds body L k
      = Inr \<lparr>res_molecules = map fst (take (nat L) (drop (k * nat L) (ord L (int k * L) M))),
              res_total = length M, res_limit = L, res_offset = int k * L\<rparr>"
    if "int8_range (int k * L)" for k
    unfolding pg o M using acc L8 that by simp
  have range_k: "int8_range (int k * L)" if "int8_range (int n * L)" "k < n" for k
  proof -
    have "0 \<le> int k * L" using L0 by simp
    moreover have "int k * L \<le> int n * L"
      using that(2) L0 by (simp add: mult_right_mono)
    ultimately show ?thesis
      using that(1) by (simp add: int8_range_def)
  qed
  have pm: "page_molecules ob db ds body L k
      = map fst (take (nat L) (drop (k * nat L) (ord L (int k * L) M)))"
    if "int8_range (int k * L)" for k
    by (simp add: page_molecules_def pk[OF that])
  have sz: "length (page_molecules ob db ds body L k) = min (nat L) (length M - k * nat L)"
    if "int8_range (int k * L)" for k
    by (simp add: pm[OF that] len min.commute)
  have sum: "(\<Sum>k<n. length (page_molecules ob db ds body L k)) = res_total res0"
    if "res_total res0 \<le> n * nat L" "int8_range (int n * L)"
  proof -
    have "(\<Sum>k<n. length (page_molecules ob db ds body L k))
        = (\<Sum>k<n. min (nat L) (length M - k * nat L))"
      by (rule sum.cong) (simp_all add: sz range_k[OF that(2)])
    also have "\<dots> = min (length M) (n * nat L)"
      by (rule sum_pages)
    finally show ?thesis using that(1) t0 by simp
  qed
  have all: "mset (concat (map (page_molecules ob db ds body L) [0..<n])) = mset (map fst M)"
    if "res_total res0 \<le> n * nat L" "int8_range (int n * L)"
      "\<forall>k<n. ord L (int k * L) M = ord L 0 M"
  proof -
    have meq: "map (page_molecules ob db ds body L) [0..<n]
        = map (\<lambda>k. map fst (take (nat L) (drop (k * nat L) (ord L 0 M)))) [0..<n]"
    proof (rule map_cong[OF refl])
      fix k assume "k \<in> set [0..<n]"
      then have k: "k < n" by simp
      show "page_molecules ob db ds body L k
          = map fst (take (nat L) (drop (k * nat L) (ord L 0 M)))"
        using pm[OF range_k[OF that(2) k]] that(3) k by simp
    qed
    have "concat (map (page_molecules ob db ds body L) [0..<n])
        = map fst (concat (map (\<lambda>k. take (nat L) (drop (k * nat L) (ord L 0 M))) [0..<n]))"
      unfolding meq by (simp add: map_concat comp_def)
    also have "\<dots> = map fst (take (n * nat L) (ord L 0 M))"
      by (simp add: concat_pages)
    also have "\<dots> = map fst (ord L 0 M)"
      using that(1) t0 len[of L 0] by simp
    finally have "concat (map (page_molecules ob db ds body L) [0..<n]) = map fst (ord L 0 M)" .
    moreover have "mset (ord L 0 M) = mset M"
      using assms(1) o unfolding reorders_def by blast
    ultimately show ?thesis by (metis mset_map)
  qed
  have dflt: "order_clause body = ''m.cid ASC'' \<and> (\<forall>l off. ord l off M = ord L 0 M)"
    if "(body_sort body = None \<or> body_sort body = Some []) \<and> orders_by_cid ob \<and> primary_key db"
  proof -
    have oc: "order_clause body = ''m.cid ASC''"
      using that by (simp add: default_order)
    have "ord l off M = ord L 0 M" for l off
      using cid_order_unique[OF assms(1) _ _ o[unfolded oc] M] that by blast
    then show ?thesis using oc by blast
  qed
  show ?thesis
  proof (intro conjI exI[of _ ord] allI impI)
    show "res_total res0 = length M" by (rule t0)
    show "ob (order_clause body) = Some ord" by (rule o)
    show "\<exists>res. nth_page ob db ds body L k = Inr res
            \<and> res_molecules res
                = map fst (take (nat L) (drop (k * nat L) (ord L (int k * L) M)))
            \<and> res_total res = res_total res0
            \<and> length (res_molecules res) = min (nat L) (length M - k * nat L)"
      if "int8_range (int k * L)" for k
      using pk[OF that] t0 sz[OF that] pm[OF that] by simp
    show "(\<Sum>k<n. length (page_molecules ob db ds body L k)) = res_total res0"
      if "res_total res0 \<le> n * nat L \<and> int8_range (int n * L)"
      using sum that by blast
    show "mset (concat (map (page_molecules ob db ds body L) [0..<n])) = mset (map fst M)"
      if "res_total res0 \<le> n * nat L \<and> int8_range (int n * L)"
        "\<forall>k<n. ord L (int k * L) M = ord L 0 M"
      using all that by blast
    show "order_clause body = ''m.cid ASC''"
      if "(body_sort body = None \<or> body_sort body = Some []) \<and> orders_by_cid ob \<and> primary_key db"
      using dflt[OF that] by blast
    show "ord l off M = ord L 0 M"
      if "(body_sort body = None \<or> body_sort body = Some []) \<and> orders_by_cid ob \<and> primary_key db"
      for l off
      using dflt[OF that] by blast
  qed
qed

theorem paging_covers_total_witness:
  "reorders cid_order \<and> orders_by_cid cid_order \<and> primary_key example_db \<and> (0::int) < 3
   \<and> nth_page cid_order example_db ''ds'' (example_body [] None) 3 0
       = Inr \<lparr>res_molecules = [example_molecule 1 (Some 150), example_molecule 2 (Some 100),
                                example_molecule 3 (Some 200)],
               res_total = 4, res_limit = 3, res_offset = 0\<rparr>
   \<and> (\<Sum>k<2. length (page_molecules cid_order example_db ''ds'' (example_body [] None) 3 k)) = 4
   \<and> mset (concat (map (page_molecules cid_order example_db ''ds'' (example_body [] None) 3) [0..<2]))
       = mset [example_molecule 1 (Some 150), example_molecule 2 (Some 100),
               example_molecule 3 (Some 200), example_molecule 4 None]"
proof -
  let ?b = "example_body [] None"
  have r: "reorders cid_order"
    by (simp add: reorders_def cid_order_def)
  have oc: "orders_by_cid cid_order"
    by (simp add: orders_by_cid_def cid_order_def)
  have pk: "primary_key example_db"
    by (simp add: primary_key_def example_db_def example_molecule_def)
  have l: "(0::int) < 3" by simp
  have q: "nth_page cid_order example_db ''ds'' ?b 3 0
       = Inr \<lparr>res_molecules = [example_molecule 1 (Some 150), example_molecule 2 (Some 100),
                                example_molecule 3 (Some 200)],
               res_total = 4, res_limit = 3, res_offset = 0\<rparr>"
    by (simp add: page_eval)
  have b: "body_sort ?b = None"
    by (simp add: example_body_def)
  have i: "int8_range (int 2 * 3)"
    by (simp add: int8_range_def)
  define M where "M = filter (\<lambda>r. eval_where (snd (build_where ''ds'' ?b))
      (fst (build_where ''ds'' ?b)) r = Some True) (from_rows example_db (use_geom ?b))"
  define res0 where "res0 = \<lparr>res_molecules = [example_molecule 1 (Some 150),
      example_molecule 2 (Some 100), example_molecule 3 (Some 200)],
      res_total = 4, res_limit = 3, res_offset = 0\<rparr>"
  have q0: "nth_page cid_order example_db ''ds'' ?b 3 0 = Inr res0"
    unfolding res0_def by (rule q)
  from paging_covers_total[OF r l q0 M_def, of 2]
  obtain ord :: "int \<Rightarrow> int \<Rightarrow> jrow list \<Rightarrow> jrow list" where
    B: "res_total res0 \<le> 2 * nat 3 \<and> int8_range (int 2 * 3) \<longrightarrow>
          (\<Sum>k<2. length (page_molecules cid_order example_db ''ds'' ?b 3 k)) = res_total res0
          \<and> ((\<forall>k<2. ord 3 (int k * 3) M = ord 3 0 M) \<longrightarrow>
                mset (concat (map (page_molecules cid_order example_db ''ds'' ?b 3) [0..<2]))
                  = mset (map fst M))"
    and C: "(body_sort ?b = None \<or> body_sort ?b = Some [])
              \<and> orders_by_cid cid_order \<and> primary_key example_db \<longrightarrow>
            order_clause ?b = ''m.cid ASC'' \<and> (\<forall>l off. ord l off M = ord 3 0 M)"
    by blast
  have n: "res_total res0 \<le> 2 * nat 3 \<and> int8_range (int 2 * 3)"
    using i by (simp add: res0_def)
  have s: "(\<Sum>k<2. length (page_molecules cid_order example_db ''ds'' ?b 3 k)) = 4"
    using B n by (simp add: res0_def)
  have "\<forall>k<2. ord 3 (int k * 3) M = ord 3 0 M"
    using C b oc pk by blast
  then have "mset (concat (map (page_molecules cid_order example_db ''ds'' ?b 3) [0..<2]))
      = mset (map fst M)"
    using B n by blast
  then have "mset (concat (map (page_molecules cid_order example_db ''ds'' ?b 3) [0..<2]))
       = mset [example_molecule 1 (Some 150), example_molecule 2 (Some 100),
               example_molecule 3 (Some 200), example_molecule 4 None]"
    unfolding M_def example_matching_rows by simp
  then show ?thesis using r oc pk q s by simp
qed

section \<open>Verification: aggregates\<close>













section \<open>Verification: geometry ingestion\<close>

lemma ingest_sdf_run:
  "ingest_sdf fl P B files uuid4 db ds paths run_id =
     path_loop fl P B files ds (run_id_used uuid4 run_id) (valid_cids db ds) paths
       ((0, 0), \<lparr>conn_db = db, conn_sent = 0\<rparr>)"
  by (simp add: ingest_sdf_def run_id_used_def)

lemma sdf_record_of_none:
  assumes "drops_data_items P"
  shows "sdf_record_of P B block = None"
proof (cases "P block")
  case None
  then show ?thesis by (simp add: sdf_record_of_def)
next
  case (Some m)
  then have "m ''PUBCHEM_COMPOUND_CID'' = None"
    using assms unfolding drops_data_items_def by blast
  then show ?thesis using Some by (simp add: sdf_record_of_def)
qed

lemma sdf_lines_nothing:
  "drops_data_items P \<Longrightarrow> sdf_lines P B ls current = []"
  by (induction ls arbitrary: current) (simp_all add: sdf_record_of_none)

lemma iter_sdf_records_nothing:
  "drops_data_items P \<Longrightarrow>
     iter_sdf_records P B files path = (case files path of None \<Rightarrow> None | Some block \<Rightarrow> Some [])"
  by (simp add: iter_sdf_records_def sdf_lines_nothing split: option.splits)

lemma path_loop_nothing:
  assumes "drops_data_items P"
  shows "path_loop fl P B files ds run valid paths (counts, c) =
     (if list_all (\<lambda>p. files p \<noteq> None) paths then Inr counts else Inl FileNotFound, c)"
proof (induction paths)
  case Nil
  show ?case by simp
next
  case (Cons p paths)
  show ?case
  proof (cases "files p")
    case None
    then show ?thesis
      by (simp add: iter_sdf_records_nothing[OF assms])
  next
    case (Some block)
    then show ?thesis
      using Cons by (simp add: iter_sdf_records_nothing[OF assms])
  qed
qed

lemmas ingest_eval =
  upsert_geometry_def execute_def insert_geometry_def insert_geometry_cold_def valid_cids_def
  example_files_def manifest_db_def example_molecule_def no_failure_def
  second_write_fails_def run_id_used_def

lemma splitlines_example:
  "splitlines example_sdf =
     [''12345'', ''  example'', [], ''  0  0  0  0  0  0  0  0  0  0999 V2000'',
      ''M  END'', ''> <PUBCHEM_COMPOUND_CID>'', ''12345'', [], ''$$$$'',
      ''3'', ''  example'', [], ''  0  0  0  0  0  0  0  0  0  0999 V2000'',
      ''M  END'', ''> <PUBCHEM_COMPOUND_CID>'', ''3'', [], ''$$$$'']"
  by (simp add: splitlines_def example_sdf_def unlines_def line_breaks_def)

text \<open>
  C3 says that a record of a structure file whose identifier is not in the manifest is
  counted as skipped, and that a record whose identifier is there is upserted and counted.
  The code does neither. \<open>iter_sdf_records\<close> parses each record with
  \<open>Chem.MolFromMolBlock\<close>, which reads none of the data items of the record, so the
  molecule has no \<open>PUBCHEM_COMPOUND_CID\<close> and the generator drops the record before it
  yields it. With such a parser the generator yields nothing for every file, and
  \<open>ingest_sdf\<close> returns the counts \<open>(0, 0)\<close> and leaves the database as it was, whatever
  the files hold; it fails only on a missing file.
\<close>

theorem ingest_sdf_yields_nothing:
  assumes "drops_data_items MolFromMolBlock"
  shows "iter_sdf_records MolFromMolBlock B files path
           = (case files path of None \<Rightarrow> None | Some block \<Rightarrow> Some [])
       \<and> ingest_sdf fl MolFromMolBlock B files uuid4 db ds paths run_id
           = (if list_all (\<lambda>p. files p \<noteq> None) paths then Inr (0, 0) else Inl FileNotFound,
              \<lparr>conn_db = db, conn_sent = 0\<rparr>)"
  using assms by (simp add: iter_sdf_records_nothing ingest_sdf_run path_loop_nothing)

theorem ingest_sdf_yields_nothing_witness:
  "drops_data_items table_only
   \<and> example_files ''a.sdf'' = Some example_sdf
   \<and> take 9 (splitlines example_sdf)
       = [''12345'', ''  example'', [], ''  0  0  0  0  0  0  0  0  0  0999 V2000'',
          ''M  END'', ''> <PUBCHEM_COMPOUND_CID>'', ''12345'', [], ''$$$$'']
   \<and> 12345 \<notin> valid_cids manifest_db ''ds''
   \<and> 3 \<in> valid_cids manifest_db ''ds''
   \<and> iter_sdf_records table_only example_builtins example_files ''a.sdf'' = Some []
   \<and> ingest_sdf no_failure table_only example_builtins example_files ''run'' manifest_db ''ds''
        [''a.sdf''] None
       = (Inr (0, 0), \<lparr>conn_db = manifest_db, conn_sent = 0\<rparr>)"
proof -
  have d: "drops_data_items table_only"
    by (simp add: drops_data_items_def table_only_def)
  from ingest_sdf_yields_nothing[OF d, of example_builtins example_files "''a.sdf''" no_failure
      "''run''" manifest_db "''ds''" "[''a.sdf'']" None]
  show ?thesis
    using d by (simp add: splitlines_example) (simp add: ingest_eval)
qed

section \<open>Verification: the two geometry tables\<close>









section \<open>Verification: the numeric fields of a manifest row\<close>

lemma py_error_only: "(e :: py_error) = ValueError"
  by (cases e) simp

lemma float_field_rejected:
  assumes "get r k = Some (SStr s)" "float_str B s = None"
  shows "float_field B r k = Inl ValueError"
  using assms by (simp add: float_field_def py_float_def)

lemma int_field_rejected:
  assumes "get r k = Some (SStr s)" "int_str B s = None"
  shows "int_field B r k = Inl ValueError"
  using assms by (simp add: int_field_def py_int_def)

lemma molecule_row_Inr:
  assumes "molecule_row B ds run r cid = Inr row"
  shows "(\<forall>k\<in>set float_columns. \<exists>x. float_field B r k = Inr x)
       \<and> (\<forall>k\<in>set int_columns. \<exists>x. int_field B r k = Inr x)"
  using assms
  by (auto simp: molecule_row_def then_do_def Let_def float_columns_def int_columns_def
      split: sum.splits)

lemma molecule_row_rejected:
  assumes "rejected_cell B r k"
  shows "molecule_row B ds run r cid = Inl ValueError"
proof (cases "molecule_row B ds run r cid")
  case (Inl e)
  then show ?thesis by (simp add: py_error_only[of e])
next
  case (Inr row)
  obtain s where g: "get r k = Some (SStr s)"
    and c: "(k \<in> set float_columns \<and> float_str B s = None)
          \<or> (k \<in> set int_columns \<and> int_str B s = None)"
    using assms by (auto simp: rejected_cell_def split: option.splits scalar.splits)
  from c show ?thesis
  proof
    assume a: "k \<in> set float_columns \<and> float_str B s = None"
    then show ?thesis
      using molecule_row_Inr[OF Inr] float_field_rejected[OF g, of B] by auto
  next
    assume a: "k \<in> set int_columns \<and> int_str B s = None"
    then show ?thesis
      using molecule_row_Inr[OF Inr] int_field_rejected[OF g, of B] by auto
  qed
qed

lemma rows_loop_raises:
  assumes "r \<in> set df" "row_cid B r = Some cid" "molecule_row B ds run r cid = Inl e"
  shows "rows_loop B ds run df rows = Inl ValueError"
  using assms(1)
proof (induction df arbitrary: rows)
  case Nil
  then show ?case by simp
next
  case (Cons a df)
  show ?case
  proof (cases "row_cid B a")
    case None
    then have "a \<noteq> r" using assms(2) by auto
    then show ?thesis using Cons None by simp
  next
    case (Some c)
    show ?thesis
    proof (cases "molecule_row B ds run a c")
      case (Inl e')
      then show ?thesis by (simp add: Some py_error_only[of e'])
    next
      case (Inr row)
      then have "a \<noteq> r" using assms(2,3) Some by auto
      then show ?thesis using Cons Some Inr by simp
    qed
  qed
qed

lemmas csv_eval =
  build_molecule_rows_def rows_loop.simps row_cid_def molecule_row_def then_do_def
  float_field_def int_field_def text_field_def py_float_def py_int_def py_str_def get_def
  int_of_float_def example_builtins_def example_series_def rejected_cell_def float_columns_def
  int_columns_def

lemma example_series_good:
  "build_molecule_rows example_builtins [example_series (Some (SStr ''180'')) None] ''ds'' ''run''
     = Inr [\<lparr>m_dataset_id = ''ds'', m_cid = 2244, m_smiles = Some ''CC(=O)O'', m_inchi_key = None,
             m_molecular_formula = None, m_molecular_weight = Some 180, m_exact_mass = None,
             m_xlogp3 = None, m_tpsa = None, m_hba = None, m_hbd = None,
             m_rotatable_bonds = None, m_discovery_method = Some ''substructure'',
             m_discovery_seed = Some ''aspirin'', m_seed_name = Some ''aspirin'',
             m_seed_smiles = None, m_name = None, m_ingest_run_id = Some ''run''\<rparr>]"
  by (simp add: csv_eval Let_def parse_discovery_seed_def normalize_discovery_method_def str_eval)

text \<open>
  C1 says that a numeric cell that cannot be parsed gives null for its field, that nothing
  raises, and that the row is still produced. The code does otherwise: when a row with a
  usable identifier has, in one of the seven numeric columns, a string that the conversion
  of the column rejects (\<open>float\<close> for the four float fields, \<open>int\<close> for the three
  count fields), \<open>build_molecule_rows\<close> raises \<open>ValueError\<close> and returns no row at
  all, whatever the other rows are. Only the identifier is converted under a handler.
\<close>

theorem build_molecule_rows_raises:
  assumes "r \<in> set df" and "row_cid B r \<noteq> None" and "rejected_cell B r k"
  shows "build_molecule_rows B df dataset_id run_id = Inl ValueError"
proof -
  obtain cid where c: "row_cid B r = Some cid" using assms(2) by auto
  show ?thesis
    unfolding build_molecule_rows_def
    by (rule rows_loop_raises[OF assms(1) c molecule_row_rejected[OF assms(3)]])
qed

theorem build_molecule_rows_raises_witness:
  "row_cid example_builtins (example_series (Some (SStr ''abc'')) None) = Some 2244
   \<and> rejected_cell example_builtins (example_series (Some (SStr ''abc'')) None) ''molecular_weight''
   \<and> build_molecule_rows example_builtins
        [example_series (Some (SStr ''180'')) None, example_series (Some (SStr ''abc'')) None]
        ''ds'' ''run'' = Inl ValueError
   \<and> float_str example_builtins ''3.0'' = Some 3
   \<and> rejected_cell example_builtins (example_series None (Some (SStr ''3.0''))) ''HBA''
   \<and> build_molecule_rows example_builtins [example_series None (Some (SStr ''3.0''))]
        ''ds'' ''run'' = Inl ValueError"
proof -
  have c: "row_cid example_builtins (example_series w h) = Some 2244" for w h
    by (simp add: csv_eval)
  have a: "rejected_cell example_builtins (example_series (Some (SStr ''abc'')) None) ''molecular_weight''"
    by (simp add: csv_eval)
  have b: "rejected_cell example_builtins (example_series None (Some (SStr ''3.0''))) ''HBA''"
    by (simp add: csv_eval)
  have f: "float_str example_builtins ''3.0'' = Some 3"
    by (simp add: example_builtins_def)
  from build_molecule_rows_raises[of "example_series (Some (SStr ''abc'')) None"
      "[example_series (Some (SStr ''180'')) None, example_series (Some (SStr ''abc'')) None]"
      example_builtins "''molecular_weight''" "''ds''" "''run''"]
    build_molecule_rows_raises[of "example_series None (Some (SStr ''3.0''))"
      "[example_series None (Some (SStr ''3.0''))]"
      example_builtins "''HBA''" "''ds''" "''run''"]
  show ?thesis using a b c f by simp
qed

end
